theory Spec2Isabelle
  imports Complex_Main
begin

section \<open>Data model\<close>

text \<open>
  The callbacks of the examples (\<^verbatim>\<open>examples/mnist_gans/callbacks.py\<close>,
  \<^verbatim>\<open>examples/mnist_advanced_gans/callbacks.py\<close>,
  \<^verbatim>\<open>examples/autoencoders/custom_callbacks.py\<close>) are hooks that read and mutate the
  runner state handed to them by the training loop. Mutation is modelled by state
  passing, every \<^verbatim>\<open>raise\<close> and every failing \<^verbatim>\<open>assert\<close> by the left summand of a
  result type.
\<close>

datatype value_error = UnexpectedFormat string | UselessVisualizer | UnknownDenorm

datatype error =
    AssertionError
  | KeyError
  | IndexError
  | TypeError
  | AttributeError
  | NotImplementedError
  | RuntimeError
  | ZeroDivisionError
  | ValueError value_error

text \<open>
  A tensor is its shape together with its elements in row-major order. A dimension is a
  natural number. The floating-point elements of the batches and images are idealised as
  reals (no rounding, no NaN); integer elements are Python/torch integers.
\<close>

record 'a tensor =
  shape :: "nat list"
  elems :: "'a list"

datatype torch_tensor = FloatTensor "real tensor" | LongTensor "int tensor"

fun tensor_shape :: "torch_tensor \<Rightarrow> nat list" where
  "tensor_shape (FloatTensor t) = shape t"
| "tensor_shape (LongTensor t) = shape t"

text \<open>\<^verbatim>\<open>tensor.ndim\<close>\<close>

definition ndim :: "torch_tensor \<Rightarrow> nat" where
  "ndim v = length (tensor_shape v)"

text \<open>\<^verbatim>\<open>tensor.size(0)\<close>: a tensor without dimensions has no dimension 0.\<close>

definition size0 :: "torch_tensor \<Rightarrow> error + nat" where
  "size0 v = (case tensor_shape v of [] \<Rightarrow> Inl IndexError | n # _ \<Rightarrow> Inr n)"

text \<open>
  \<^verbatim>\<open>torch.randn(z_shape)\<close>: a tensor of the requested shape filled with samples. The
  samples come from the environment, here a sequence \<open>rng\<close>.
\<close>

definition randn :: "(nat \<Rightarrow> real) \<Rightarrow> nat list \<Rightarrow> real tensor" where
  "randn rng z_shape = \<lparr>shape = z_shape, elems = map rng [0..<prod_list z_shape]\<rparr>"

text \<open>
  The data of an optimizer's parameter is clamped in place, where the floating-point
  format matters: an element is NaN or a number, finite or infinite, and numbers are
  compared as the format compares them.
\<close>

datatype fnum = MinusInf | Finite real | PlusInf

datatype fval = NaN | Num fnum

fun fnum_le :: "fnum \<Rightarrow> fnum \<Rightarrow> bool" where
  "fnum_le MinusInf _ = True"
| "fnum_le _ PlusInf = True"
| "fnum_le (Finite a) (Finite b) = (a \<le> b)"
| "fnum_le _ _ = False"

text \<open>
  The fields of \<^verbatim>\<open>RunnerState\<close> the callbacks use. Parameters of an optimizer are
  shared, mutable tensors: an optimizer refers to them by address, and \<open>params_data\<close>
  is the store holding the elements of \<^verbatim>\<open>param.data\<close> for each address. A TensorBoard
  writer is the list of the images added to it, the latest first.
\<close>

type_synonym writer = "(string \<times> torch_tensor \<times> int) list"

record tensorboard_logger =
  tb_loggers :: "string \<rightharpoonup> writer"

record runner_state =
  input :: "string \<rightharpoonup> torch_tensor"
  output' :: "string \<rightharpoonup> torch_tensor"
  metrics :: "string \<rightharpoonup> torch_tensor"
  loggers :: "string \<rightharpoonup> tensorboard_logger"
  loader_name :: string
  step :: int
  need_backward :: bool
  params_data :: "nat \<Rightarrow> fval list"

subsection \<open>Tensor operations used by the callbacks\<close>

text \<open>
  Python's clipping of a slice bound \<open>k\<close> against a length \<open>n\<close>: a negative bound
  counts from the end.
\<close>

definition slice_stop :: "nat \<Rightarrow> int \<Rightarrow> nat" where
  "slice_stop n k = (if k < 0 then nat (int n + k) else min n (nat k))"

text \<open>\<^verbatim>\<open>t[:k]\<close> and \<^verbatim>\<open>t[k:]\<close>: slices along dimension 0.\<close>

definition slice_to :: "int \<Rightarrow> 'a tensor \<Rightarrow> error + 'a tensor" where
  "slice_to k t =
     (case shape t of
        [] \<Rightarrow> Inl IndexError
      | n # rest \<Rightarrow>
          let m = slice_stop n k
          in Inr \<lparr>shape = m # rest, elems = take (m * prod_list rest) (elems t)\<rparr>)"

definition slice_from :: "int \<Rightarrow> 'a tensor \<Rightarrow> error + 'a tensor" where
  "slice_from k t =
     (case shape t of
        [] \<Rightarrow> Inl IndexError
      | n # rest \<Rightarrow>
          let m = slice_stop n k
          in Inr \<lparr>shape = (n - m) # rest, elems = drop (m * prod_list rest) (elems t)\<rparr>)"

text \<open>
  \<^verbatim>\<open>torch.cat((a, b), dim=0)\<close>: the tensors must agree on every other dimension.
\<close>

definition cat0 :: "'a tensor \<Rightarrow> 'a tensor \<Rightarrow> error + 'a tensor" where
  "cat0 a b =
     (case shape a of
        [] \<Rightarrow> Inl RuntimeError
      | n # ra \<Rightarrow>
          (case shape b of
             [] \<Rightarrow> Inl RuntimeError
           | m # rb \<Rightarrow>
               if ra = rb then Inr \<lparr>shape = (n + m) # ra, elems = elems a @ elems b\<rparr>
               else Inl RuntimeError))"

fun tensor_slice_to :: "int \<Rightarrow> torch_tensor \<Rightarrow> error + torch_tensor" where
  "tensor_slice_to k (FloatTensor t) = map_sum id FloatTensor (slice_to k t)"
| "tensor_slice_to k (LongTensor t) = map_sum id LongTensor (slice_to k t)"

fun tensor_slice_from :: "int \<Rightarrow> torch_tensor \<Rightarrow> error + torch_tensor" where
  "tensor_slice_from k (FloatTensor t) = map_sum id FloatTensor (slice_from k t)"
| "tensor_slice_from k (LongTensor t) = map_sum id LongTensor (slice_from k t)"

fun torch_cat :: "torch_tensor \<Rightarrow> torch_tensor \<Rightarrow> error + torch_tensor" where
  "torch_cat (FloatTensor a) (FloatTensor b) = map_sum id FloatTensor (cat0 a b)"
| "torch_cat (LongTensor a) (LongTensor b) = map_sum id LongTensor (cat0 a b)"
| "torch_cat _ _ = Inl RuntimeError"

text \<open>\<^verbatim>\<open>torch.equal\<close>: same size and same elements.\<close>

fun torch_equal :: "torch_tensor \<Rightarrow> torch_tensor \<Rightarrow> bool" where
  "torch_equal (FloatTensor a) (FloatTensor b) = (shape a = shape b \<and> elems a = elems b)"
| "torch_equal (LongTensor a) (LongTensor b) = (shape a = shape b \<and> elems a = elems b)"
| "torch_equal (FloatTensor a) (LongTensor b) =
     (shape a = shape b \<and> elems a = map real_of_int (elems b))"
| "torch_equal (LongTensor a) (FloatTensor b) =
     (shape a = shape b \<and> map real_of_int (elems a) = elems b)"

text \<open>\<^verbatim>\<open>torch.zeros(shape)\<close>\<close>

definition torch_zeros :: "nat list \<Rightarrow> real tensor" where
  "torch_zeros shp = \<lparr>shape = shp, elems = replicate (prod_list shp) 0\<rparr>"

text \<open>
  \<^verbatim>\<open>z[torch.arange(batch_size), targets] = 1\<close> for a two-dimensional \<open>z\<close>. The two
  index tensors are broadcast against each other; an index \<open>c\<close> into a dimension
  of size \<open>n\<close> must satisfy \<open>-n \<le> c < n\<close>, and a negative one counts from the end.
\<close>

definition broadcast_index :: "nat list \<Rightarrow> int list \<Rightarrow> error + (nat \<times> int) list" where
  "broadcast_index rows cols =
     (if length rows = length cols then Inr (zip rows cols)
      else if length cols = 1 then Inr (map (\<lambda>r. (r, hd cols)) rows)
      else if length rows = 1 then Inr (map (\<lambda>c. (hd rows, c)) cols)
      else Inl IndexError)"

fun put_ones :: "nat \<Rightarrow> (nat \<times> int) list \<Rightarrow> real list \<Rightarrow> error + real list" where
  "put_ones n [] xs = Inr xs"
| "put_ones n ((r, c) # ps) xs =
     (if - int n \<le> c \<and> c < int n
      then put_ones n ps (xs[r * n + nat (if c < 0 then c + int n else c) := 1])
      else Inl IndexError)"

definition index_put_ones ::
  "real tensor \<Rightarrow> nat \<Rightarrow> nat \<Rightarrow> torch_tensor \<Rightarrow> error + real tensor" where
  "index_put_ones z batch_size n targets =
     (case targets of
        FloatTensor _ \<Rightarrow> Inl IndexError
      | LongTensor t \<Rightarrow>
          (case broadcast_index [0..<batch_size] (elems t) of
             Inl e \<Rightarrow> Inl e
           | Inr ps \<Rightarrow>
               (case put_ones n ps (elems z) of
                  Inl e \<Rightarrow> Inl e
                | Inr xs \<Rightarrow> Inr (z\<lparr>elems := xs\<rparr>))))"

section \<open>Batch preparation callbacks (mnist\_advanced\_gans)\<close>

record PrepareBatchInputCallback =
  data_key :: string

text \<open>\<^verbatim>\<open>PrepareBatchInputCallback.get_batch_size\<close>\<close>

definition get_batch_size ::
  "'a PrepareBatchInputCallback_scheme \<Rightarrow> runner_state \<Rightarrow> error + nat" where
  "get_batch_size self state =
     (case input state (data_key self) of
        None \<Rightarrow> Inl AssertionError
      | Some t \<Rightarrow> size0 t)"

subsection \<open>AddBatchNoiseCallback\<close>

record AddBatchNoiseCallback = PrepareBatchInputCallback +
  noise_shape :: "nat list"
  injected_noise_key :: string

text \<open>
  The constructor argument \<^verbatim>\<open>noise_shape: Union[int, Tuple[int]]\<close>; a list is accepted
  as well.
\<close>

datatype shape_arg = ShapeInt nat | ShapeTuple "nat list" | ShapeList "nat list"

fun normalize_noise_shape :: "shape_arg \<Rightarrow> nat list" where
  "normalize_noise_shape (ShapeTuple ns) = ns"
| "normalize_noise_shape (ShapeList ns) = ns"
| "normalize_noise_shape (ShapeInt n) = [n]"

definition AddBatchNoiseCallback_init ::
  "shape_arg \<Rightarrow> string \<Rightarrow> string \<Rightarrow> AddBatchNoiseCallback" where
  "AddBatchNoiseCallback_init noise_shape_arg data_key_arg injected_noise_key_arg =
     \<lparr>data_key = data_key_arg,
      noise_shape = normalize_noise_shape noise_shape_arg,
      injected_noise_key = injected_noise_key_arg\<rparr>"

definition AddBatchNoiseCallback_on_batch_start ::
  "(nat \<Rightarrow> real) \<Rightarrow> AddBatchNoiseCallback \<Rightarrow> runner_state \<Rightarrow> error + runner_state" where
  "AddBatchNoiseCallback_on_batch_start rng self state =
     (case get_batch_size self state of
        Inl e \<Rightarrow> Inl e
      | Inr batch_size \<Rightarrow>
          if input state (injected_noise_key self) \<noteq> None then Inl AssertionError
          else
            let z_shape = batch_size # noise_shape self
            in Inr (state\<lparr>input :=
                 (input state)(injected_noise_key self \<mapsto> FloatTensor (randn rng z_shape))\<rparr>))"

subsection \<open>OneHotTransformCallback\<close>

record OneHotTransformCallback = PrepareBatchInputCallback +
  n_classes :: nat
  target_key :: string
  one_hot_target_key :: string

definition OneHotTransformCallback_on_batch_start ::
  "OneHotTransformCallback \<Rightarrow> runner_state \<Rightarrow> error + runner_state" where
  "OneHotTransformCallback_on_batch_start self state =
     (case get_batch_size self state of
        Inl e \<Rightarrow> Inl e
      | Inr batch_size \<Rightarrow>
          (case input state (target_key self) of
             None \<Rightarrow> Inl AssertionError
           | Some targets \<Rightarrow>
               if input state (one_hot_target_key self) \<noteq> None then Inl AssertionError
               else if ndim targets > 1 then Inl NotImplementedError
               else
                 (case index_put_ones (torch_zeros [batch_size, n_classes self])
                         batch_size (n_classes self) targets of
                    Inl e \<Rightarrow> Inl e
                  | Inr targets_one_hot \<Rightarrow>
                      Inr (state\<lparr>input :=
                        (input state)(one_hot_target_key self \<mapsto>
                           FloatTensor targets_one_hot)\<rparr>))))"

subsection \<open>SameClassFeaturesRepeatCallback\<close>

record SameClassFeaturesRepeatCallback = PrepareBatchInputCallback +
  same_class_data_key :: string
  targets_key :: "string option"

text \<open>The block guarded by \<^verbatim>\<open>if self.targets_key is not None\<close>.\<close>

definition targets_sanity_check ::
  "SameClassFeaturesRepeatCallback \<Rightarrow> runner_state \<Rightarrow> nat \<Rightarrow> error + unit" where
  "targets_sanity_check self state batch_size =
     (case targets_key self of
        None \<Rightarrow> Inr ()
      | Some tk \<Rightarrow>
          (case input state tk of
             None \<Rightarrow> Inl AssertionError
           | Some target \<Rightarrow>
               (case size0 target of
                  Inl e \<Rightarrow> Inl e
                | Inr n \<Rightarrow>
                    if n \<noteq> batch_size then Inl AssertionError
                    else if batch_size mod 2 \<noteq> 0 then Inl AssertionError
                    else
                      (case tensor_slice_to (int (batch_size div 2)) target of
                         Inl e \<Rightarrow> Inl e
                       | Inr first_half \<Rightarrow>
                           (case tensor_slice_from (int (batch_size div 2)) target of
                              Inl e \<Rightarrow> Inl e
                            | Inr second_half \<Rightarrow>
                                if torch_equal first_half second_half then Inr ()
                                else Inl AssertionError)))))"

definition SameClassFeaturesRepeatCallback_on_batch_start ::
  "SameClassFeaturesRepeatCallback \<Rightarrow> runner_state \<Rightarrow> error + runner_state" where
  "SameClassFeaturesRepeatCallback_on_batch_start self state =
     (case get_batch_size self state of
        Inl e \<Rightarrow> Inl e
      | Inr batch_size \<Rightarrow>
          (case targets_sanity_check self state batch_size of
             Inl e \<Rightarrow> Inl e
           | Inr _ \<Rightarrow>
               (case input state (data_key self) of
                  None \<Rightarrow> Inl KeyError
                | Some data \<Rightarrow>
                    if input state (same_class_data_key self) \<noteq> None
                    then Inl AssertionError
                    else
                      (case tensor_slice_to (int (batch_size div 2)) data of
                         Inl e \<Rightarrow> Inl e
                       | Inr first_half \<Rightarrow>
                           (case tensor_slice_from (int (batch_size div 2)) data of
                              Inl e \<Rightarrow> Inl e
                            | Inr second_half \<Rightarrow>
                                (case torch_cat first_half second_half of
                                   Inl e \<Rightarrow> Inl e
                                 | Inr same_class_data \<Rightarrow>
                                     Inr (state\<lparr>input :=
                                       (input state)(same_class_data_key self \<mapsto>
                                          same_class_data)\<rparr>)))))))"

section \<open>Metric callbacks (mnist\_gans, mnist\_advanced\_gans)\<close>

text \<open>
  \<^verbatim>\<open>input_key\<close> and \<^verbatim>\<open>output_key\<close> have type
  \<^verbatim>\<open>Optional[Union[str, List[str]]]\<close>; what \<^verbatim>\<open>_get\<close> returns is the dictionary
  itself, a sub-dictionary, or a single entry.
\<close>

datatype keys_arg = KeysNone | KeysList "string list" | KeysStr string

datatype got = GotDict "string \<rightharpoonup> torch_tensor" | GotEntry torch_tensor

record MultiKeyMetricCallback =
  prefix :: string
  input_key :: keys_arg
  output_key :: keys_arg

text \<open>
  The comprehension \<^verbatim>\<open>{key: dictionary[key] for key in keys}\<close>: keys are read from
  left to right, and the first missing one raises.
\<close>

fun dict_comprehension ::
  "(string \<rightharpoonup> torch_tensor) \<Rightarrow> (string \<rightharpoonup> torch_tensor) \<Rightarrow> string list
     \<Rightarrow> error + (string \<rightharpoonup> torch_tensor)" where
  "dict_comprehension acc dictionary [] = Inr acc"
| "dict_comprehension acc dictionary (key # keys) =
     (case dictionary key of
        None \<Rightarrow> Inl KeyError
      | Some v \<Rightarrow> dict_comprehension (acc(key \<mapsto> v)) dictionary keys)"

text \<open>\<^verbatim>\<open>MultiKeyMetricCallback._get\<close>\<close>

fun MultiKeyMetricCallback_get ::
  "(string \<rightharpoonup> torch_tensor) \<Rightarrow> keys_arg \<Rightarrow> error + got" where
  "MultiKeyMetricCallback_get dictionary KeysNone = Inr (GotDict dictionary)"
| "MultiKeyMetricCallback_get dictionary (KeysList keys) =
     map_sum id GotDict (dict_comprehension Map.empty dictionary keys)"
| "MultiKeyMetricCallback_get dictionary (KeysStr keys) =
     (case dictionary keys of None \<Rightarrow> Inl KeyError | Some v \<Rightarrow> Inr (GotEntry v))"

text \<open>
  Modelled from the spec: \<^verbatim>\<open>state.metrics.add_batch_value(name, value)\<close> belongs to the
  training framework and is not among the sources; it records the value of the batch
  under the given name.
\<close>

definition add_batch_value ::
  "(string \<rightharpoonup> torch_tensor) \<Rightarrow> string \<Rightarrow> torch_tensor \<Rightarrow> (string \<rightharpoonup> torch_tensor)" where
  "add_batch_value batch_values name v = batch_values(name \<mapsto> v)"

text \<open>
  \<^verbatim>\<open>MultiKeyMetricCallback.on_batch_end\<close>; \<open>metric_fn\<close> is the bound method stored by
  the constructor.
\<close>

definition MultiKeyMetricCallback_on_batch_end ::
  "('a MultiKeyMetricCallback_scheme \<Rightarrow> got \<Rightarrow> got \<Rightarrow> error + torch_tensor)
     \<Rightarrow> 'a MultiKeyMetricCallback_scheme \<Rightarrow> runner_state \<Rightarrow> error + runner_state" where
  "MultiKeyMetricCallback_on_batch_end metric_fn self state =
     (case MultiKeyMetricCallback_get (output' state) (output_key self) of
        Inl e \<Rightarrow> Inl e
      | Inr outputs \<Rightarrow>
          (case MultiKeyMetricCallback_get (input state) (input_key self) of
             Inl e \<Rightarrow> Inl e
           | Inr targets \<Rightarrow>
               (case metric_fn self outputs targets of
                  Inl e \<Rightarrow> Inl e
                | Inr metric \<Rightarrow>
                    Inr (state\<lparr>metrics :=
                      add_batch_value (metrics state) (prefix self) metric\<rparr>))))"

subsection \<open>WassersteinDistanceCallback\<close>

record WassersteinDistanceCallback = MultiKeyMetricCallback +
  real_validity_key :: string
  fake_validity_key :: string

definition WassersteinDistanceCallback_init ::
  "string \<Rightarrow> string \<Rightarrow> string \<Rightarrow> WassersteinDistanceCallback" where
  "WassersteinDistanceCallback_init prefix_arg real_validity_output_key
       fake_validity_output_key =
     \<lparr>prefix = prefix_arg,
      input_key = KeysNone,
      output_key = KeysList [real_validity_output_key, fake_validity_output_key],
      real_validity_key = real_validity_output_key,
      fake_validity_key = fake_validity_output_key\<rparr>"

text \<open>
  \<^verbatim>\<open>get_wasserstein_distance\<close>. The tensor library's \<^verbatim>\<open>mean()\<close> and subtraction are
  the parameters \<open>mean\<close> and \<open>sub\<close>: nothing is assumed about them, and either may
  raise. The mean of the real validity is evaluated first, then that of the fake
  validity, then the difference. Indexing a tensor by a string raises.
\<close>

definition get_wasserstein_distance ::
  "(torch_tensor \<Rightarrow> error + torch_tensor)
     \<Rightarrow> (torch_tensor \<Rightarrow> torch_tensor \<Rightarrow> error + torch_tensor)
     \<Rightarrow> WassersteinDistanceCallback \<Rightarrow> got \<Rightarrow> got \<Rightarrow> error + torch_tensor" where
  "get_wasserstein_distance mean sub self outputs targets =
     (case outputs of
        GotEntry _ \<Rightarrow> Inl IndexError
      | GotDict d \<Rightarrow>
          (case d (real_validity_key self) of
             None \<Rightarrow> Inl KeyError
           | Some real_validity \<Rightarrow>
               (case d (fake_validity_key self) of
                  None \<Rightarrow> Inl KeyError
                | Some fake_validity \<Rightarrow>
                    (case mean real_validity of
                       Inl e \<Rightarrow> Inl e
                     | Inr real_mean \<Rightarrow>
                         (case mean fake_validity of
                            Inl e \<Rightarrow> Inl e
                          | Inr fake_mean \<Rightarrow> sub real_mean fake_mean)))))"

definition WassersteinDistanceCallback_on_batch_end ::
  "(torch_tensor \<Rightarrow> error + torch_tensor)
     \<Rightarrow> (torch_tensor \<Rightarrow> torch_tensor \<Rightarrow> error + torch_tensor)
     \<Rightarrow> WassersteinDistanceCallback \<Rightarrow> runner_state \<Rightarrow> error + runner_state" where
  "WassersteinDistanceCallback_on_batch_end mean sub =
     MultiKeyMetricCallback_on_batch_end (get_wasserstein_distance mean sub)"

section \<open>Optimizer callbacks with weight clamping\<close>

text \<open>
  A param group is a dictionary; only its entry \<^verbatim>\<open>"params"\<close>, a list of parameters,
  is read here. A parameter is the address of its data in \<open>params_data\<close>.
\<close>

record optimizer =
  param_groups :: "(string \<rightharpoonup> nat list) list"

text \<open>
  The attributes of the base class \<^verbatim>\<open>OptimizerCallback\<close> that
  \<^verbatim>\<open>WeightClampingOptimizerCallback\<close> and \<^verbatim>\<open>LipzOptimizerCallback\<close> read.
\<close>

record OptimizerCallback =
  accumulation_steps :: int
  optimizer_key :: "string option"
  accumulation_counter :: int

text \<open>\<^verbatim>\<open>weight_clamp_value\<close> is a Python float that is a finite number.\<close>

record WeightClampingOptimizerCallback = OptimizerCallback +
  weight_clamp_value :: real

type_synonym LipzOptimizerCallback = WeightClampingOptimizerCallback

text \<open>
  \<^verbatim>\<open>clamp_(min, max)\<close> on one element: NaN stays NaN, and a number is raised to the
  lower bound first and then lowered to the upper bound, so that crossed bounds give the
  upper bound.
\<close>

definition fnum_max :: "fnum \<Rightarrow> fnum \<Rightarrow> fnum" where
  "fnum_max a b = (if fnum_le a b then b else a)"

definition fnum_min :: "fnum \<Rightarrow> fnum \<Rightarrow> fnum" where
  "fnum_min a b = (if fnum_le b a then b else a)"

fun clamp :: "fnum \<Rightarrow> fnum \<Rightarrow> fval \<Rightarrow> fval" where
  "clamp lo hi NaN = NaN"
| "clamp lo hi (Num x) = Num (fnum_min (fnum_max x lo) hi)"

text \<open>
  \<^verbatim>\<open>param.data.clamp_(min=-c, max=c)\<close>, in place. The two bounds are Python floats;
  the tensor library converts each to the dtype of the parameter before it compares,
  which is the parameter \<open>to_dtype\<close>: it takes the parameter and the bound, and nothing
  is assumed about it.
\<close>

definition clamp_param ::
  "(nat \<Rightarrow> real \<Rightarrow> fnum) \<Rightarrow> real \<Rightarrow> (nat \<Rightarrow> fval list) \<Rightarrow> nat \<Rightarrow> (nat \<Rightarrow> fval list)" where
  "clamp_param to_dtype c store param =
     store(param := map (clamp (to_dtype param (- c)) (to_dtype param c)) (store param))"

fun clamp_params ::
  "(nat \<Rightarrow> real \<Rightarrow> fnum) \<Rightarrow> real \<Rightarrow> nat list \<Rightarrow> (nat \<Rightarrow> fval list) \<Rightarrow> (nat \<Rightarrow> fval list)" where
  "clamp_params to_dtype c [] store = store"
| "clamp_params to_dtype c (param # params) store =
     clamp_params to_dtype c params (clamp_param to_dtype c store param)"

fun clamp_groups ::
  "(nat \<Rightarrow> real \<Rightarrow> fnum) \<Rightarrow> real \<Rightarrow> (string \<rightharpoonup> nat list) list \<Rightarrow> (nat \<Rightarrow> fval list)
     \<Rightarrow> error + (nat \<Rightarrow> fval list)" where
  "clamp_groups to_dtype c [] store = Inr store"
| "clamp_groups to_dtype c (param_group # groups) store =
     (case param_group ''params'' of
        None \<Rightarrow> Inl KeyError
      | Some params \<Rightarrow> clamp_groups to_dtype c groups (clamp_params to_dtype c params store))"

text \<open>
  \<^verbatim>\<open>WeightClampingOptimizerCallback.on_batch_end\<close>. The inherited
  \<^verbatim>\<open>OptimizerCallback.on_batch_end\<close> and \<^verbatim>\<open>RunnerState.get_key\<close> belong to the training
  framework and are not among the sources: they are the parameters
  \<open>super_on_batch_end\<close> and \<open>get_key\<close>, about which nothing is assumed.
\<close>

definition WeightClampingOptimizerCallback_on_batch_end ::
  "(nat \<Rightarrow> real \<Rightarrow> fnum)
   \<Rightarrow> (WeightClampingOptimizerCallback \<Rightarrow> runner_state
      \<Rightarrow> error + WeightClampingOptimizerCallback \<times> runner_state)
   \<Rightarrow> (runner_state \<Rightarrow> string \<Rightarrow> string option \<Rightarrow> error + optimizer)
   \<Rightarrow> WeightClampingOptimizerCallback \<Rightarrow> runner_state
   \<Rightarrow> error + WeightClampingOptimizerCallback \<times> runner_state" where
  "WeightClampingOptimizerCallback_on_batch_end to_dtype super_on_batch_end get_key
       self0 state0 =
     (case super_on_batch_end self0 state0 of
        Inl e \<Rightarrow> Inl e
      | Inr (self, state) \<Rightarrow>
          if \<not> need_backward state then Inr (self, state)
          else
            (case get_key state ''optimizer'' (optimizer_key self) of
               Inl e \<Rightarrow> Inl e
             | Inr optimizer \<Rightarrow>
                 if accumulation_steps self = 0 then Inl ZeroDivisionError
                 else
                   let need_gradient_step =
                         (accumulation_counter self mod accumulation_steps self = 0)
                   in if need_gradient_step
                      then
                        (case clamp_groups to_dtype (weight_clamp_value self)
                                (param_groups optimizer) (params_data state) of
                           Inl e \<Rightarrow> Inl e
                         | Inr store \<Rightarrow> Inr (self, state\<lparr>params_data := store\<rparr>))
                      else Inr (self, state)))"

text \<open>\<^verbatim>\<open>LipzOptimizerCallback.on_batch_end\<close> has the same body.\<close>

definition LipzOptimizerCallback_on_batch_end ::
  "(nat \<Rightarrow> real \<Rightarrow> fnum)
   \<Rightarrow> (LipzOptimizerCallback \<Rightarrow> runner_state \<Rightarrow> error + LipzOptimizerCallback \<times> runner_state)
   \<Rightarrow> (runner_state \<Rightarrow> string \<Rightarrow> string option \<Rightarrow> error + optimizer)
   \<Rightarrow> LipzOptimizerCallback \<Rightarrow> runner_state
   \<Rightarrow> error + LipzOptimizerCallback \<times> runner_state" where
  "LipzOptimizerCallback_on_batch_end = WeightClampingOptimizerCallback_on_batch_end"

section \<open>VisualizationCallback\<close>

subsection \<open>Constructor arguments\<close>

text \<open>
  What may be passed as \<^verbatim>\<open>input_keys\<close> or \<^verbatim>\<open>output_keys\<close>: \<^verbatim>\<open>None\<close>, a string, a
  tuple or a list (whose elements may or may not be strings), or anything else.
\<close>

datatype key_elem = Str string | NonStr

datatype image_keys_arg =
  KNone | KStr string | KTuple "key_elem list" | KList "key_elem list" | KOther

text \<open>\<^verbatim>\<open>batch_frequency\<close> is a number, converted by \<^verbatim>\<open>int(...)\<close>.\<close>

datatype py_number = PyInt int | PyFloat real

text \<open>
  \<^verbatim>\<open>denorm\<close>: \<^verbatim>\<open>None\<close>, a string, a value that is not a string but has a
  \<^verbatim>\<open>lower()\<close> method, such as \<^verbatim>\<open>bytes\<close>, whose result is never equal to a string, or
  anything else.
\<close>

datatype denorm_arg = DNone | DStr string | DBytes | DOther

fun is_str :: "key_elem \<Rightarrow> bool" where
  "is_str (Str _) = True"
| "is_str NonStr = False"

fun str_of :: "key_elem \<Rightarrow> string" where
  "str_of (Str s) = s"
| "str_of NonStr = []"

text \<open>
  The chain \<^verbatim>\<open>if keys is None / elif isinstance(keys, str) / elif isinstance(keys,
  (tuple, list)) / else\<close>, which the constructor runs on \<^verbatim>\<open>input_keys\<close> and then on
  \<^verbatim>\<open>output_keys\<close>; \<open>name\<close> is the argument named in the error message.
\<close>

fun normalize_keys :: "string \<Rightarrow> image_keys_arg \<Rightarrow> error + string list" where
  "normalize_keys name KNone = Inr []"
| "normalize_keys name (KStr s) = Inr [s]"
| "normalize_keys name (KTuple ks) =
     (if list_all is_str ks then Inr (map str_of ks) else Inl AssertionError)"
| "normalize_keys name (KList ks) =
     (if list_all is_str ks then Inr (map str_of ks) else Inl AssertionError)"
| "normalize_keys name KOther = Inl (ValueError (UnexpectedFormat name))"

text \<open>\<^verbatim>\<open>int(x)\<close> truncates a float towards zero.\<close>

fun py_int :: "py_number \<Rightarrow> int" where
  "py_int (PyInt i) = i"
| "py_int (PyFloat x) = (if 0 \<le> x then \<lfloor>x\<rfloor> else \<lceil>x\<rceil>)"

text \<open>\<^verbatim>\<open>str.lower()\<close>, on the letters A to Z.\<close>

definition lower_char :: "char \<Rightarrow> char" where
  "lower_char c =
     (let n = (of_char c :: nat) in if 65 \<le> n \<and> n \<le> 90 then char_of (n + 32) else c)"

definition lower :: "string \<Rightarrow> string" where
  "lower s = map lower_char s"

text \<open>
  The two functions \<^verbatim>\<open>self.denorm\<close> can be: \<^verbatim>\<open>lambda x: x / 2 + .5\<close> and
  \<^verbatim>\<open>lambda x: x\<close>, applied to a number or to a tensor, element by element. Dividing
  an integer tensor gives a float tensor.
\<close>

datatype denorm_fn = HalfPlusHalf | Identity

fun denorm_number :: "denorm_fn \<Rightarrow> real \<Rightarrow> real" where
  "denorm_number HalfPlusHalf x = x / 2 + 5 / 10"
| "denorm_number Identity x = x"

fun denorm_tensor :: "denorm_fn \<Rightarrow> torch_tensor \<Rightarrow> torch_tensor" where
  "denorm_tensor HalfPlusHalf (FloatTensor t) =
     FloatTensor \<lparr>shape = shape t, elems = map (denorm_number HalfPlusHalf) (elems t)\<rparr>"
| "denorm_tensor HalfPlusHalf (LongTensor t) =
     FloatTensor \<lparr>shape = shape t,
       elems = map (\<lambda>i. denorm_number HalfPlusHalf (real_of_int i)) (elems t)\<rparr>"
| "denorm_tensor Identity t = t"

text \<open>
  The choice of \<^verbatim>\<open>self.denorm\<close> in mnist\_gans and mnist\_advanced\_gans:
  \<^verbatim>\<open>denorm.lower()\<close> is evaluated first, which raises for a value without that
  method.
\<close>

fun select_denorm :: "denorm_arg \<Rightarrow> error + denorm_fn" where
  "select_denorm DNone = Inl AttributeError"
| "select_denorm DOther = Inl AttributeError"
| "select_denorm DBytes = Inl (ValueError UnknownDenorm)"
| "select_denorm (DStr s) =
     (if lower s = ''default'' then Inr HalfPlusHalf
      else if lower s = ''none'' then Inr Identity
      else Inl (ValueError UnknownDenorm))"

text \<open>
  The choice of \<^verbatim>\<open>self.denorm\<close> in autoencoders: \<^verbatim>\<open>denorm == 'default'\<close>, then
  \<^verbatim>\<open>denorm is None\<close>.
\<close>

fun select_denorm_autoencoders :: "denorm_arg \<Rightarrow> error + denorm_fn" where
  "select_denorm_autoencoders (DStr s) =
     (if s = ''default'' then Inr HalfPlusHalf
      else Inl (ValueError UnknownDenorm))"
| "select_denorm_autoencoders DNone =
     Inr Identity"
| "select_denorm_autoencoders DBytes = Inl (ValueError UnknownDenorm)"
| "select_denorm_autoencoders DOther = Inl (ValueError UnknownDenorm)"

subsection \<open>The callback\<close>

record VisualizationCallback =
  input_keys :: "string list"
  output_keys :: "string list"
  batch_frequency :: int
  concat_images :: bool
  max_images :: int
  denorm :: denorm_fn
  n_row :: int
  loader_batch_count :: int
  loader_visualized_in_current_epoch :: bool

text \<open>\<^verbatim>\<open>VisualizationCallback._reset\<close>\<close>

definition VisualizationCallback_reset ::
  "VisualizationCallback \<Rightarrow> VisualizationCallback" where
  "VisualizationCallback_reset self =
     self\<lparr>loader_batch_count := 0, loader_visualized_in_current_epoch := False\<rparr>"

text \<open>
  \<^verbatim>\<open>VisualizationCallback.__init__\<close>. The three examples differ only in how
  \<^verbatim>\<open>denorm\<close> is chosen, which is the parameter \<open>select\<close>.
\<close>

definition VisualizationCallback_init_with ::
  "(denorm_arg \<Rightarrow> error + denorm_fn) \<Rightarrow> image_keys_arg \<Rightarrow> image_keys_arg \<Rightarrow> py_number
     \<Rightarrow> bool \<Rightarrow> int \<Rightarrow> int \<Rightarrow> denorm_arg \<Rightarrow> error + VisualizationCallback" where
  "VisualizationCallback_init_with select input_keys_arg output_keys_arg batch_frequency_arg
       concat_images_arg max_images_arg n_row_arg denorm_arg =
     (case normalize_keys ''input_keys'' input_keys_arg of
        Inl e \<Rightarrow> Inl e
      | Inr iks \<Rightarrow>
          (case normalize_keys ''output_keys'' output_keys_arg of
             Inl e \<Rightarrow> Inl e
           | Inr oks \<Rightarrow>
               if length iks + length oks = 0 then Inl (ValueError UselessVisualizer)
               else if \<not> py_int batch_frequency_arg > 0 then Inl AssertionError
               else
                 (case select denorm_arg of
                    Inl e \<Rightarrow> Inl e
                  | Inr d \<Rightarrow>
                      Inr (VisualizationCallback_reset
                        \<lparr>input_keys = iks,
                         output_keys = oks,
                         batch_frequency = py_int batch_frequency_arg,
                         concat_images = concat_images_arg,
                         max_images = max_images_arg,
                         denorm = d,
                         n_row = n_row_arg,
                         loader_batch_count = 0,
                         loader_visualized_in_current_epoch = False\<rparr>))))"

definition VisualizationCallback_init ::
  "image_keys_arg \<Rightarrow> image_keys_arg \<Rightarrow> py_number \<Rightarrow> bool \<Rightarrow> int \<Rightarrow> int \<Rightarrow> denorm_arg
     \<Rightarrow> error + VisualizationCallback" where
  "VisualizationCallback_init = VisualizationCallback_init_with select_denorm"

definition VisualizationCallback_init_autoencoders ::
  "image_keys_arg \<Rightarrow> image_keys_arg \<Rightarrow> py_number \<Rightarrow> bool \<Rightarrow> int \<Rightarrow> int \<Rightarrow> denorm_arg
     \<Rightarrow> error + VisualizationCallback" where
  "VisualizationCallback_init_autoencoders =
     VisualizationCallback_init_with select_denorm_autoencoders"

subsection \<open>Looking up the TensorBoard writer\<close>

text \<open>
  \<^verbatim>\<open>_get_tensorboard_logger\<close> in mnist\_gans and mnist\_advanced\_gans, where
  \<^verbatim>\<open>state.loggers\<close> is a dictionary.
\<close>

definition get_tensorboard_logger :: "runner_state \<Rightarrow> error + writer" where
  "get_tensorboard_logger state =
     (case loggers state ''tensorboard'' of
        None \<Rightarrow> Inl RuntimeError
      | Some tb \<Rightarrow>
          (case tb_loggers tb (loader_name state) of
             None \<Rightarrow> Inl RuntimeError
           | Some w \<Rightarrow> Inr w))"

text \<open>
  \<^verbatim>\<open>_get_tensorboard_logger\<close> in autoencoders, where \<^verbatim>\<open>state.loggers\<close> is iterated and
  the first \<^verbatim>\<open>TensorboardLogger\<close> is indexed by the loader's name.
\<close>

datatype logger = TensorboardLogger tensorboard_logger | OtherLogger

fun get_tensorboard_logger_autoencoders :: "logger list \<Rightarrow> string \<Rightarrow> error + writer" where
  "get_tensorboard_logger_autoencoders [] name = Inl RuntimeError"
| "get_tensorboard_logger_autoencoders (TensorboardLogger tb # ls) name =
     (case tb_loggers tb name of None \<Rightarrow> Inl KeyError | Some w \<Rightarrow> Inr w)"
| "get_tensorboard_logger_autoencoders (OtherLogger # ls) name =
     get_tensorboard_logger_autoencoders ls name"

subsection \<open>Computing and saving visualizations\<close>

text \<open>The list comprehension \<^verbatim>\<open>[d[key] for key in keys]\<close>.\<close>

fun lookup_all :: "(string \<rightharpoonup> torch_tensor) \<Rightarrow> string list \<Rightarrow> error + torch_tensor list" where
  "lookup_all d [] = Inr []"
| "lookup_all d (key # keys) =
     (case d key of
        None \<Rightarrow> Inl KeyError
      | Some v \<Rightarrow>
          (case lookup_all d keys of Inl e \<Rightarrow> Inl e | Inr vs \<Rightarrow> Inr (v # vs)))"

text \<open>\<^verbatim>\<open>sep.join(strings)\<close>\<close>

fun join :: "string \<Rightarrow> string list \<Rightarrow> string" where
  "join sep [] = []"
| "join sep [s] = s"
| "join sep (s # t # ss) = s @ sep @ join sep (t # ss)"

text \<open>
  A dictionary whose order matters is a list of pairs with distinct keys, in the order
  of first insertion; \<^verbatim>\<open>dict(pairs)\<close> inserts the pairs from left to right.
\<close>

fun dict_set :: "string \<Rightarrow> 'v \<Rightarrow> (string \<times> 'v) list \<Rightarrow> (string \<times> 'v) list" where
  "dict_set k v [] = [(k, v)]"
| "dict_set k v ((k', v') # kvs) =
     (if k = k' then (k, v) # kvs else (k', v') # dict_set k v kvs)"

definition dict_of_pairs :: "(string \<times> 'v) list \<Rightarrow> (string \<times> 'v) list" where
  "dict_of_pairs kvs = foldl (\<lambda>d (k, v). dict_set k v d) [] kvs"

text \<open>
  \<^verbatim>\<open>compute_visualizations\<close>. \<open>cat3\<close> is \<^verbatim>\<open>torch.cat(tensors, dim=3)\<close>, a parameter;
  \<^verbatim>\<open>detach()\<close> and \<^verbatim>\<open>cpu()\<close> do not change a tensor's value.
\<close>

definition compute_visualizations ::
  "(torch_tensor list \<Rightarrow> error + torch_tensor) \<Rightarrow> VisualizationCallback \<Rightarrow> runner_state
     \<Rightarrow> error + (string \<times> torch_tensor) list" where
  "compute_visualizations cat3 self state =
     (case lookup_all (input state) (input_keys self) of
        Inl e \<Rightarrow> Inl e
      | Inr input_tensors \<Rightarrow>
          (case lookup_all (output' state) (output_keys self) of
             Inl e \<Rightarrow> Inl e
           | Inr output_tensors \<Rightarrow>
               if concat_images self
               then
                 let viz_name = join ''|'' (input_keys self @ output_keys self)
                 in (case cat3 (input_tensors @ output_tensors) of
                       Inl e \<Rightarrow> Inl e
                     | Inr t \<Rightarrow> Inr [(viz_name, denorm_tensor (denorm self) t)])
               else
                 Inr (dict_of_pairs
                   (zip (input_keys self @ output_keys self)
                        (map (denorm_tensor (denorm self))
                           (input_tensors @ output_tensors))))))"

text \<open>
  The loop of \<^verbatim>\<open>save_visualizations\<close> over the items of the dictionary. \<open>make_grid\<close>
  is \<^verbatim>\<open>torchvision.utils.make_grid\<close>, a parameter; \<^verbatim>\<open>add_image\<close> adds the image to
  the writer.
\<close>

fun add_images ::
  "(torch_tensor \<Rightarrow> int \<Rightarrow> error + torch_tensor) \<Rightarrow> VisualizationCallback \<Rightarrow> int
     \<Rightarrow> (string \<times> torch_tensor) list \<Rightarrow> writer \<Rightarrow> error + writer" where
  "add_images make_grid self global_step [] tb_logger = Inr tb_logger"
| "add_images make_grid self global_step ((key, batch_images) # items) tb_logger =
     (case tensor_slice_to (max_images self) batch_images of
        Inl e \<Rightarrow> Inl e
      | Inr sliced \<Rightarrow>
          (case make_grid sliced (n_row self) of
             Inl e \<Rightarrow> Inl e
           | Inr grid_image \<Rightarrow>
               add_images make_grid self global_step items
                 ((key, grid_image, global_step) # tb_logger)))"

text \<open>
  \<^verbatim>\<open>save_visualizations\<close>: the writer is looked up first; it is an object shared with
  the state, so what is added to it is seen in \<^verbatim>\<open>state.loggers\<close>.
\<close>

definition save_visualizations ::
  "(torch_tensor \<Rightarrow> int \<Rightarrow> error + torch_tensor) \<Rightarrow> VisualizationCallback \<Rightarrow> runner_state
     \<Rightarrow> (string \<times> torch_tensor) list \<Rightarrow> error + runner_state" where
  "save_visualizations make_grid self state visualizations =
     (case get_tensorboard_logger state of
        Inl e \<Rightarrow> Inl e
      | Inr tb_logger \<Rightarrow>
          (case add_images make_grid self (step state) visualizations tb_logger of
             Inl e \<Rightarrow> Inl e
           | Inr w \<Rightarrow>
               (case loggers state ''tensorboard'' of
                  None \<Rightarrow> Inl RuntimeError
                | Some tb \<Rightarrow>
                    Inr (state\<lparr>loggers := (loggers state)(''tensorboard'' \<mapsto>
                      tb\<lparr>tb_loggers := (tb_loggers tb)(loader_name state \<mapsto> w)\<rparr>)\<rparr>))))"

definition visualize ::
  "(torch_tensor list \<Rightarrow> error + torch_tensor) \<Rightarrow> (torch_tensor \<Rightarrow> int \<Rightarrow> error + torch_tensor)
     \<Rightarrow> VisualizationCallback \<Rightarrow> runner_state
     \<Rightarrow> error + VisualizationCallback \<times> runner_state" where
  "visualize cat3 make_grid self state =
     (case compute_visualizations cat3 self state of
        Inl e \<Rightarrow> Inl e
      | Inr visualizations \<Rightarrow>
          (case save_visualizations make_grid self state visualizations of
             Inl e \<Rightarrow> Inl e
           | Inr state' \<Rightarrow>
               Inr (self\<lparr>loader_visualized_in_current_epoch := True\<rparr>, state')))"

subsection \<open>The hooks\<close>

definition VisualizationCallback_on_loader_start ::
  "VisualizationCallback \<Rightarrow> runner_state \<Rightarrow> VisualizationCallback" where
  "VisualizationCallback_on_loader_start self state = VisualizationCallback_reset self"

definition VisualizationCallback_on_loader_end ::
  "(torch_tensor list \<Rightarrow> error + torch_tensor) \<Rightarrow> (torch_tensor \<Rightarrow> int \<Rightarrow> error + torch_tensor)
     \<Rightarrow> VisualizationCallback \<Rightarrow> runner_state
     \<Rightarrow> error + VisualizationCallback \<times> runner_state" where
  "VisualizationCallback_on_loader_end cat3 make_grid self state =
     (if \<not> loader_visualized_in_current_epoch self then visualize cat3 make_grid self state
      else Inr (self, state))"

text \<open>
  \<^verbatim>\<open>on_batch_end\<close>: the counter is incremented, and \<^verbatim>\<open>if count % batch_frequency:\<close>
  is taken when the remainder is not zero. The remainder by zero raises.
\<close>

definition VisualizationCallback_on_batch_end ::
  "(torch_tensor list \<Rightarrow> error + torch_tensor) \<Rightarrow> (torch_tensor \<Rightarrow> int \<Rightarrow> error + torch_tensor)
     \<Rightarrow> VisualizationCallback \<Rightarrow> runner_state
     \<Rightarrow> error + VisualizationCallback \<times> runner_state" where
  "VisualizationCallback_on_batch_end cat3 make_grid self0 state =
     (let self = self0\<lparr>loader_batch_count := loader_batch_count self0 + 1\<rparr>
      in if batch_frequency self = 0 then Inl ZeroDivisionError
         else if loader_batch_count self mod batch_frequency self \<noteq> 0
         then visualize cat3 make_grid self state
         else Inr (self, state))"

subsection \<open>A loader pass\<close>

text \<open>
  Modelled from the spec: the training loop belongs to the framework and is not among
  the sources. The callbacks plug into its lifecycle: for one loader it calls
  \<^verbatim>\<open>on_loader_start\<close>, then for every batch puts the batch's input, output and step
  into the state and calls \<^verbatim>\<open>on_batch_end\<close>, and at the end calls \<^verbatim>\<open>on_loader_end\<close>.
\<close>

type_synonym batch = "(string \<rightharpoonup> torch_tensor) \<times> (string \<rightharpoonup> torch_tensor) \<times> int"

fun load_batch :: "batch \<Rightarrow> runner_state \<Rightarrow> runner_state" where
  "load_batch (batch_input, batch_output, batch_step) state =
     state\<lparr>input := batch_input, output' := batch_output, step := batch_step\<rparr>"

fun run_batches ::
  "(torch_tensor list \<Rightarrow> error + torch_tensor) \<Rightarrow> (torch_tensor \<Rightarrow> int \<Rightarrow> error + torch_tensor)
     \<Rightarrow> VisualizationCallback \<Rightarrow> runner_state \<Rightarrow> batch list
     \<Rightarrow> error + VisualizationCallback \<times> runner_state" where
  "run_batches cat3 make_grid self state [] = Inr (self, state)"
| "run_batches cat3 make_grid self state (b # bs) =
     (case VisualizationCallback_on_batch_end cat3 make_grid self (load_batch b state) of
        Inl e \<Rightarrow> Inl e
      | Inr (self', state') \<Rightarrow> run_batches cat3 make_grid self' state' bs)"

definition loader_pass ::
  "(torch_tensor list \<Rightarrow> error + torch_tensor) \<Rightarrow> (torch_tensor \<Rightarrow> int \<Rightarrow> error + torch_tensor)
     \<Rightarrow> VisualizationCallback \<Rightarrow> runner_state \<Rightarrow> batch list
     \<Rightarrow> error + VisualizationCallback \<times> runner_state" where
  "loader_pass cat3 make_grid self state bs =
     (case run_batches cat3 make_grid
             (VisualizationCallback_on_loader_start self state) state bs of
        Inl e \<Rightarrow> Inl e
      | Inr (self', state') \<Rightarrow> VisualizationCallback_on_loader_end cat3 make_grid self' state')"

text \<open>The number of images the writer of the current loader holds.\<close>

definition images_logged :: "runner_state \<Rightarrow> nat" where
  "images_logged state =
     (case get_tensorboard_logger state of Inl _ \<Rightarrow> 0 | Inr w \<Rightarrow> length w)"

section \<open>Concrete inputs\<close>

text \<open>States, callbacks and arguments on which the theorems below are instantiated.\<close>

definition empty_state :: runner_state where
  "empty_state =
     \<lparr>input = Map.empty, output' = Map.empty, metrics = Map.empty, loggers = Map.empty,
      loader_name = ''train'', step = 0, need_backward = True, params_data = (\<lambda>_. [])\<rparr>"

definition pair_batch :: torch_tensor where
  "pair_batch = FloatTensor \<lparr>shape = [2, 2], elems = [1, 2, 3, 4]\<rparr>"

definition pair_targets :: torch_tensor where
  "pair_targets = LongTensor \<lparr>shape = [2], elems = [7, 7]\<rparr>"

definition noise_state :: runner_state where
  "noise_state = empty_state\<lparr>input := [''data'' \<mapsto> pair_batch]\<rparr>"

definition same_class_state :: runner_state where
  "same_class_state =
     empty_state\<lparr>input := [''data'' \<mapsto> pair_batch, ''class_targets'' \<mapsto> pair_targets]\<rparr>"

definition same_class_callback :: SameClassFeaturesRepeatCallback where
  "same_class_callback =
     \<lparr>data_key = ''data'', same_class_data_key = ''same_class_data'',
      targets_key = Some ''class_targets''\<rparr>"

text \<open>
  Stand-ins for the tensor library's \<^verbatim>\<open>mean()\<close> and subtraction: \<^verbatim>\<open>mean()\<close> raises
  \<^verbatim>\<open>RuntimeError\<close> on an integer tensor; on a float tensor that is not empty it is the
  mean, computed here in the reals (on an empty one the library gives NaN, which a
  tensor of reals cannot hold, and the stand-in raises). The difference of two float
  tensors without dimensions is the difference of their elements.
\<close>

fun float_mean :: "torch_tensor \<Rightarrow> error + torch_tensor" where
  "float_mean (LongTensor t) = Inl RuntimeError"
| "float_mean (FloatTensor t) =
     (if elems t = [] then Inl RuntimeError
      else Inr (FloatTensor
             \<lparr>shape = [], elems = [sum_list (elems t) / real (length (elems t))]\<rparr>))"

fun scalar_sub :: "torch_tensor \<Rightarrow> torch_tensor \<Rightarrow> error + torch_tensor" where
  "scalar_sub (FloatTensor a) (FloatTensor b) =
     (case (elems a, elems b) of
        ([x], [y]) \<Rightarrow> Inr (FloatTensor \<lparr>shape = [], elems = [x - y]\<rparr>)
      | _ \<Rightarrow> Inl RuntimeError)"
| "scalar_sub a b = Inl RuntimeError"

definition validity_state :: runner_state where
  "validity_state = empty_state\<lparr>output' :=
     [''real_validity'' \<mapsto> FloatTensor \<lparr>shape = [2], elems = [1, 3]\<rparr>,
      ''fake_validity'' \<mapsto> FloatTensor \<lparr>shape = [2], elems = [0, 1]\<rparr>]\<rparr>"

definition integer_validity_state :: runner_state where
  "integer_validity_state = empty_state\<lparr>output' :=
     [''real_validity'' \<mapsto> LongTensor \<lparr>shape = [2], elems = [1, 3]\<rparr>,
      ''fake_validity'' \<mapsto> LongTensor \<lparr>shape = [2], elems = [0, 1]\<rparr>]\<rparr>"

text \<open>
  An optimizer with one param group holding one parameter, an inherited
  \<^verbatim>\<open>on_batch_end\<close> that leaves callback and state as they are, and a \<^verbatim>\<open>get_key\<close>
  that returns the optimizer.
\<close>

definition clamp_callback :: "real \<Rightarrow> WeightClampingOptimizerCallback" where
  "clamp_callback c =
     \<lparr>accumulation_steps = 1, optimizer_key = None, accumulation_counter = 0,
      weight_clamp_value = c\<rparr>"

definition one_group_optimizer :: optimizer where
  "one_group_optimizer = \<lparr>param_groups = [[''params'' \<mapsto> [0]]]\<rparr>"

definition weights_state :: runner_state where
  "weights_state =
     empty_state\<lparr>params_data := (\<lambda>_. [])(0 := [Num (Finite 0), Num (Finite 5), NaN])\<rparr>"

text \<open>
  Conversions of a bound to the dtype of a parameter: one that holds the bound exactly,
  as float32 holds 1 and -1, and the conversion to float32 of the bounds 0.1 and -0.1,
  whose nearest float32 numbers are 13421773/134217728 and its negative.
\<close>

definition exact_dtype :: "nat \<Rightarrow> real \<Rightarrow> fnum" where
  "exact_dtype param x = Finite x"

definition float32_tenth :: "nat \<Rightarrow> real \<Rightarrow> fnum" where
  "float32_tenth param x =
     (if x = 1 / 10 then Finite (13421773 / 134217728)
      else if x = - (1 / 10) then Finite (- (13421773 / 134217728))
      else Finite x)"

definition super_done ::
  "WeightClampingOptimizerCallback \<Rightarrow> runner_state
     \<Rightarrow> error + WeightClampingOptimizerCallback \<times> runner_state" where
  "super_done self state = Inr (self, state)"

definition get_one_group_optimizer ::
  "runner_state \<Rightarrow> string \<Rightarrow> string option \<Rightarrow> error + optimizer" where
  "get_one_group_optimizer state key inner_key = Inr one_group_optimizer"

text \<open>Targets for three classes, with one and with two dimensions.\<close>

definition one_hot_callback :: OneHotTransformCallback where
  "one_hot_callback =
     \<lparr>data_key = ''data'', n_classes = 3, target_key = ''target'',
      one_hot_target_key = ''one_hot_target''\<rparr>"

definition class_targets :: "int tensor" where
  "class_targets = \<lparr>shape = [2], elems = [2, 0]\<rparr>"

definition one_hot_state :: runner_state where
  "one_hot_state =
     empty_state\<lparr>input := [''data'' \<mapsto> pair_batch, ''target'' \<mapsto> LongTensor class_targets]\<rparr>"

definition matrix_targets_state :: runner_state where
  "matrix_targets_state =
     empty_state\<lparr>input := [''data'' \<mapsto> pair_batch, ''target'' \<mapsto> pair_batch]\<rparr>"

definition one_hot_present_state :: runner_state where
  "one_hot_present_state =
     empty_state\<lparr>input := [''data'' \<mapsto> pair_batch, ''target'' \<mapsto> LongTensor class_targets,
       ''one_hot_target'' \<mapsto> pair_batch]\<rparr>"

definition matrix_targets_present_state :: runner_state where
  "matrix_targets_present_state =
     empty_state\<lparr>input := [''data'' \<mapsto> pair_batch, ''target'' \<mapsto> pair_batch,
       ''one_hot_target'' \<mapsto> pair_batch]\<rparr>"

text \<open>A visualization callback with the default arguments and one image key.\<close>

definition image_callback :: "denorm_fn \<Rightarrow> VisualizationCallback" where
  "image_callback d =
     \<lparr>input_keys = [''image''], output_keys = [], batch_frequency = 25,
      concat_images = True, max_images = 20, denorm = d, n_row = 1,
      loader_batch_count = 0, loader_visualized_in_current_epoch = False\<rparr>"

text \<open>
  Stand-ins for the two library functions of the visualization: concatenating a single
  tensor gives that tensor, and the layout of the grid plays no role here.
\<close>

definition cat_single :: "torch_tensor list \<Rightarrow> error + torch_tensor" where
  "cat_single ts = (case ts of [t] \<Rightarrow> Inr t | _ \<Rightarrow> Inl RuntimeError)"

definition plain_grid :: "torch_tensor \<Rightarrow> int \<Rightarrow> error + torch_tensor" where
  "plain_grid t nrow = Inr t"

text \<open>
  A state with one image in the input and a TensorBoard logger for the loader, and one
  whose logger knows another loader only.
\<close>

definition one_image :: torch_tensor where
  "one_image = FloatTensor \<lparr>shape = [1, 1, 1, 1], elems = [0]\<rparr>"

definition half_image :: torch_tensor where
  "half_image = FloatTensor \<lparr>shape = [1, 1, 1, 1], elems = [1 / 2]\<rparr>"

definition logged_state :: "writer \<Rightarrow> runner_state" where
  "logged_state w =
     empty_state\<lparr>input := [''image'' \<mapsto> one_image],
       loggers := [''tensorboard'' \<mapsto> \<lparr>tb_loggers = [''train'' \<mapsto> w]\<rparr>]\<rparr>"

definition image_batch :: batch where
  "image_batch = ([''image'' \<mapsto> one_image], Map.empty, 0)"

definition no_loader_state :: runner_state where
  "no_loader_state =
     empty_state\<lparr>input := [''image'' \<mapsto> one_image],
       loggers := [''tensorboard'' \<mapsto> \<lparr>tb_loggers = [''valid'' \<mapsto> []]\<rparr>]\<rparr>"

section \<open>Predicates used in the statements\<close>

text \<open>
  Every element of a parameter's data that is a number lies between the two bounds.
\<close>

definition in_range :: "fnum \<Rightarrow> fnum \<Rightarrow> fval list \<Rightarrow> bool" where
  "in_range lo hi xs = (\<forall>x\<in>set xs. x = NaN \<or> (\<exists>v. x = Num v \<and> fnum_le lo v \<and> fnum_le v hi))"

text \<open>The number of images one visualization adds to the writer.\<close>

definition images_per_visualization :: "VisualizationCallback \<Rightarrow> nat" where
  "images_per_visualization self =
     (if concat_images self then 1 else card (set (input_keys self @ output_keys self)))"

section \<open>Auxiliary lemmas\<close>

subsection \<open>The constructor of VisualizationCallback, stage by stage\<close>

lemma select_denorm_not_keys_error:
  "select_denorm d \<noteq> Inl (ValueError (UnexpectedFormat a))"
  "select_denorm d \<noteq> Inl (ValueError UselessVisualizer)"
  "select_denorm_autoencoders d \<noteq> Inl (ValueError (UnexpectedFormat a))"
  "select_denorm_autoencoders d \<noteq> Inl (ValueError UselessVisualizer)"
  by (cases d; simp)+

lemma normalize_keys_error:
  "normalize_keys name k = Inl e \<Longrightarrow>
     e = AssertionError \<or> (k = KOther \<and> e = ValueError (UnexpectedFormat name))"
  by (cases k) (auto split: if_splits)

lemma init_with_result:
  assumes "VisualizationCallback_init_with select ik ok bf ci mi nr dn = Inr cb"
  shows "normalize_keys ''input_keys'' ik = Inr (input_keys cb)
       \<and> normalize_keys ''output_keys'' ok = Inr (output_keys cb)
       \<and> input_keys cb @ output_keys cb \<noteq> []
       \<and> batch_frequency cb = py_int bf \<and> 0 < batch_frequency cb
       \<and> select dn = Inr (denorm cb)
       \<and> concat_images cb = ci \<and> max_images cb = mi \<and> n_row cb = nr
       \<and> loader_batch_count cb = 0 \<and> \<not> loader_visualized_in_current_epoch cb"
  using assms
  by (auto simp add: VisualizationCallback_init_with_def VisualizationCallback_reset_def
      split: sum.splits if_splits)

lemma init_with_input_other:
  "VisualizationCallback_init_with select KOther ok bf ci mi nr dn
   = Inl (ValueError (UnexpectedFormat ''input_keys''))"
  by (simp add: VisualizationCallback_init_with_def)

lemma init_with_output_other:
  "normalize_keys ''input_keys'' ik = Inr iks \<Longrightarrow>
   VisualizationCallback_init_with select ik KOther bf ci mi nr dn
   = Inl (ValueError (UnexpectedFormat ''output_keys''))"
  by (simp add: VisualizationCallback_init_with_def)

lemma init_with_useless:
  assumes "\<And>d. select d \<noteq> Inl (ValueError UselessVisualizer)"
  shows "(VisualizationCallback_init_with select ik ok bf ci mi nr dn
          = Inl (ValueError UselessVisualizer))
       = (normalize_keys ''input_keys'' ik = Inr [] \<and> normalize_keys ''output_keys'' ok = Inr [])"
  using assms [of dn]
  by (auto simp add: VisualizationCallback_init_with_def
      split: sum.splits if_splits dest: normalize_keys_error)

lemma init_with_frequency:
  "normalize_keys ''input_keys'' ik = Inr iks \<Longrightarrow> normalize_keys ''output_keys'' ok = Inr oks
   \<Longrightarrow> iks @ oks \<noteq> [] \<Longrightarrow> \<not> 0 < py_int bf
   \<Longrightarrow> VisualizationCallback_init_with select ik ok bf ci mi nr dn = Inl AssertionError"
  by (auto simp add: VisualizationCallback_init_with_def)

lemma init_with_format_error:
  assumes "\<And>d a. select d \<noteq> Inl (ValueError (UnexpectedFormat a))"
    and "VisualizationCallback_init_with select ik ok bf ci mi nr dn
         = Inl (ValueError (UnexpectedFormat a))"
  shows "(a = ''input_keys'' \<and> ik = KOther) \<or> (a = ''output_keys'' \<and> ok = KOther)"
  using assms(2) assms(1) [of dn a]
  by (auto simp add: VisualizationCallback_init_with_def
      split: sum.splits if_splits dest: normalize_keys_error)

lemma init_with_denorm:
  "normalize_keys ''input_keys'' ik = Inr iks \<Longrightarrow> normalize_keys ''output_keys'' ok = Inr oks
   \<Longrightarrow> iks @ oks \<noteq> [] \<Longrightarrow> 0 < py_int bf
   \<Longrightarrow> VisualizationCallback_init_with select ik ok bf ci mi nr dn
       = (case select dn of
            Inl e \<Rightarrow> Inl e
          | Inr d \<Rightarrow>
              Inr \<lparr>input_keys = iks, output_keys = oks, batch_frequency = py_int bf,
                   concat_images = ci, max_images = mi, denorm = d, n_row = nr,
                   loader_batch_count = 0, loader_visualized_in_current_epoch = False\<rparr>)"
  by (auto simp add: VisualizationCallback_init_with_def VisualizationCallback_reset_def
      split: sum.splits)

lemma lower_default: "lower ''default'' = ''default''"
  by code_simp

lemma lower_none: "lower ''none'' = ''none''"
  by code_simp

lemma lower_DEFAULT: "lower ''DEFAULT'' = ''default''"
  by code_simp

lemma lower_linear: "lower ''linear'' = ''linear''"
  by code_simp

lemma normalize_keys_strings:
  "normalize_keys name (KTuple (map Str ks)) = Inr ks"
  "normalize_keys name (KList (map Str ks)) = Inr ks"
  by (simp_all add: list_all_iff comp_def)

lemma init_image_default:
  "VisualizationCallback_init (KStr ''image'') KNone (PyInt 25) True 20 1 (DStr ''default'')
   = Inr (image_callback HalfPlusHalf)"
  by (simp add: VisualizationCallback_init_def VisualizationCallback_init_with_def
      VisualizationCallback_reset_def image_callback_def lower_default)

subsection \<open>What a visualization does to the state\<close>

lemma add_images_length:
  "add_images make_grid self global_step items w = Inr w'
   \<Longrightarrow> length w' = length w + length items"
proof (induction items arbitrary: w)
  case Nil
  then show ?case by simp
next
  case (Cons item items)
  obtain key batch_images where item: "item = (key, batch_images)" by (cases item)
  from Cons.prems item obtain sliced grid_image where
    "add_images make_grid self global_step items ((key, grid_image, global_step) # w) = Inr w'"
    by (auto split: sum.splits)
  from Cons.IH [OF this] show ?case by simp
qed

lemma get_tensorboard_logger_Inr:
  "(get_tensorboard_logger state = Inr w)
   = (\<exists>tb. loggers state ''tensorboard'' = Some tb \<and> tb_loggers tb (loader_name state) = Some w)"
  by (auto simp add: get_tensorboard_logger_def split: option.splits)

lemma get_tensorboard_logger_Inl:
  "(get_tensorboard_logger state = Inl e)
   = (e = RuntimeError
      \<and> (loggers state ''tensorboard'' = None
         \<or> (\<exists>tb. loggers state ''tensorboard'' = Some tb
                 \<and> tb_loggers tb (loader_name state) = None)))"
  by (auto simp add: get_tensorboard_logger_def split: option.splits)

lemma save_visualizations_result:
  assumes "save_visualizations make_grid self state visualizations = Inr state'"
  shows "\<exists>w w'. get_tensorboard_logger state = Inr w
         \<and> add_images make_grid self (step state) visualizations w = Inr w'
         \<and> get_tensorboard_logger state' = Inr w'
         \<and> length w' = length w + length visualizations
         \<and> loader_name state' = loader_name state"
proof -
  from assms obtain w w' tb where
    w: "get_tensorboard_logger state = Inr w"
    and w': "add_images make_grid self (step state) visualizations w = Inr w'"
    and tb: "loggers state ''tensorboard'' = Some tb"
    and state': "state' = state\<lparr>loggers := (loggers state)(''tensorboard'' \<mapsto>
                      tb\<lparr>tb_loggers := (tb_loggers tb)(loader_name state \<mapsto> w')\<rparr>)\<rparr>"
    by (auto simp add: save_visualizations_def split: sum.splits option.splits)
  from state' have "get_tensorboard_logger state' = Inr w'" "loader_name state' = loader_name state"
    by (simp_all add: get_tensorboard_logger_def)
  with w w' add_images_length [OF w'] show ?thesis
    by (intro exI [of _ w] exI [of _ w']) simp
qed

lemma images_logged_save:
  assumes "save_visualizations make_grid self state visualizations = Inr state'"
  shows "images_logged state' = images_logged state + length visualizations"
  using save_visualizations_result [OF assms] by (auto simp add: images_logged_def)

lemma lookup_all_length:
  "lookup_all d keys = Inr vs \<Longrightarrow> length vs = length keys"
  by (induction keys arbitrary: vs) (auto split: option.splits sum.splits)

lemma dict_set_not_Nil: "dict_set k v d \<noteq> []"
  by (cases d) (auto split: if_splits)

lemma foldl_dict_set_not_Nil:
  "d \<noteq> [] \<Longrightarrow> foldl (\<lambda>d (k, v). dict_set k v d) d kvs \<noteq> []"
proof (induction kvs arbitrary: d)
  case Nil
  then show ?case by simp
next
  case (Cons kv kvs)
  obtain k v where kv: "kv = (k, v)" by (cases kv)
  have "foldl (\<lambda>d (k, v). dict_set k v d) (dict_set k v d) kvs \<noteq> []"
    by (rule Cons.IH) (rule dict_set_not_Nil)
  with kv show ?case by simp
qed

lemma dict_of_pairs_not_Nil:
  assumes "kvs \<noteq> []"
  shows "dict_of_pairs kvs \<noteq> []"
proof (cases kvs)
  case Nil
  with assms show ?thesis by simp
next
  case (Cons kv kvs')
  obtain k v where kv: "kv = (k, v)" by (cases kv)
  have "foldl (\<lambda>d (k, v). dict_set k v d) (dict_set k v []) kvs' \<noteq> []"
    by (rule foldl_dict_set_not_Nil) (rule dict_set_not_Nil)
  with Cons kv show ?thesis by (simp add: dict_of_pairs_def)
qed

lemma compute_visualizations_not_Nil:
  assumes "compute_visualizations cat3 self state = Inr visualizations"
    and "input_keys self @ output_keys self \<noteq> []"
  shows "visualizations \<noteq> []"
proof (cases "concat_images self")
  case True
  with assms(1) show ?thesis
    by (auto simp add: compute_visualizations_def Let_def split: sum.splits)
next
  case False
  with assms(1) obtain input_tensors output_tensors where
    i: "lookup_all (input state) (input_keys self) = Inr input_tensors"
    and o: "lookup_all (output' state) (output_keys self) = Inr output_tensors"
    and v: "visualizations = dict_of_pairs
                   (zip (input_keys self @ output_keys self)
                        (map (denorm_tensor (denorm self))
                           (input_tensors @ output_tensors)))"
    by (auto simp add: compute_visualizations_def split: sum.splits)
  from lookup_all_length [OF i] lookup_all_length [OF o] assms(2)
  have "zip (input_keys self @ output_keys self)
          (map (denorm_tensor (denorm self)) (input_tensors @ output_tensors)) \<noteq> []"
    by (cases "input_keys self @ output_keys self"; cases "input_tensors @ output_tensors") auto
  with v show ?thesis by (simp add: dict_of_pairs_not_Nil)
qed

lemma compute_visualizations_concat:
  assumes "compute_visualizations cat3 self state = Inr visualizations"
    and "concat_images self"
  shows "length visualizations = 1"
  using assms by (auto simp add: compute_visualizations_def Let_def split: sum.splits)

lemma visualize_result:
  assumes "visualize cat3 make_grid self state = Inr (self', state')"
  shows "\<exists>visualizations.
           compute_visualizations cat3 self state = Inr visualizations
         \<and> save_visualizations make_grid self state visualizations = Inr state'
         \<and> self' = self\<lparr>loader_visualized_in_current_epoch := True\<rparr>
         \<and> images_logged state' = images_logged state + length visualizations
         \<and> loader_name state' = loader_name state"
proof -
  from assms obtain visualizations where
    c: "compute_visualizations cat3 self state = Inr visualizations"
    and s: "save_visualizations make_grid self state visualizations = Inr state'"
    and f: "self' = self\<lparr>loader_visualized_in_current_epoch := True\<rparr>"
    by (auto simp add: visualize_def split: sum.splits)
  from save_visualizations_result [OF s] have "loader_name state' = loader_name state"
    by (elim exE conjE)
  with images_logged_save [OF s] c s f show ?thesis
    by (intro exI [of _ visualizations]) simp
qed

lemma visualize_more_images:
  assumes "visualize cat3 make_grid self state = Inr (self', state')"
    and "input_keys self @ output_keys self \<noteq> []"
  shows "images_logged state < images_logged state'"
proof -
  from visualize_result [OF assms(1)] obtain visualizations where
    "compute_visualizations cat3 self state = Inr visualizations"
    "images_logged state' = images_logged state + length visualizations"
    by blast
  with compute_visualizations_not_Nil [OF _ assms(2)] show ?thesis
    by (cases visualizations) auto
qed

lemma visualize_one_image:
  assumes "visualize cat3 make_grid self state = Inr (self', state')"
    and "concat_images self"
  shows "images_logged state' = images_logged state + 1"
  using visualize_result [OF assms(1)] compute_visualizations_concat [OF _ assms(2)]
  by auto

subsection \<open>Counting the images of a visualization\<close>

lemma dict_set_keys: "fst ` set (dict_set k v d) = insert k (fst ` set d)"
proof (induction d)
  case Nil
  show ?case by simp
next
  case (Cons kv d)
  obtain k' v' where kv: "kv = (k', v')" by (cases kv)
  show ?case
  proof (cases "k = k'")
    case True
    with kv show ?thesis by simp
  next
    case False
    with kv Cons.IH show ?thesis by (simp add: insert_commute)
  qed
qed

lemma dict_set_distinct: "distinct (map fst d) \<Longrightarrow> distinct (map fst (dict_set k v d))"
proof (induction d)
  case Nil
  show ?case by simp
next
  case (Cons kv d)
  obtain k' v' where kv: "kv = (k', v')" by (cases kv)
  show ?case
  proof (cases "k = k'")
    case True
    with kv Cons.prems show ?thesis by simp
  next
    case False
    with kv Cons show ?thesis by (simp add: dict_set_keys)
  qed
qed

lemma foldl_dict_set_keys:
  "distinct (map fst d) \<Longrightarrow>
     distinct (map fst (foldl (\<lambda>d (k, v). dict_set k v d) d kvs))
   \<and> set (map fst (foldl (\<lambda>d (k, v). dict_set k v d) d kvs))
       = set (map fst d) \<union> set (map fst kvs)"
proof (induction kvs arbitrary: d)
  case Nil
  then show ?case by simp
next
  case (Cons kv kvs)
  obtain k v where kv: "kv = (k, v)" by (cases kv)
  from Cons.prems have "distinct (map fst (dict_set k v d))" by (rule dict_set_distinct)
  from Cons.IH [OF this] kv show ?case
    by (simp add: dict_set_keys Un_commute insert_commute)
qed

lemma dict_of_pairs_length:
  "length (dict_of_pairs kvs) = card (set (map fst kvs))"
proof -
  have "distinct (map fst ([] :: (string \<times> 'a) list))" by simp
  from foldl_dict_set_keys [OF this, of kvs]
  have d: "distinct (map fst (dict_of_pairs kvs))"
    and s: "set (map fst (dict_of_pairs kvs)) = set (map fst kvs)"
    by (simp_all add: dict_of_pairs_def)
  from distinct_card [OF d] s show ?thesis by simp
qed

lemma compute_visualizations_length:
  assumes "compute_visualizations cat3 self state = Inr visualizations"
  shows "length visualizations = images_per_visualization self"
proof (cases "concat_images self")
  case True
  with compute_visualizations_concat [OF assms] show ?thesis
    by (simp add: images_per_visualization_def)
next
  case False
  with assms obtain input_tensors output_tensors where
    i: "lookup_all (input state) (input_keys self) = Inr input_tensors"
    and o: "lookup_all (output' state) (output_keys self) = Inr output_tensors"
    and v: "visualizations = dict_of_pairs
                   (zip (input_keys self @ output_keys self)
                        (map (denorm_tensor (denorm self))
                           (input_tensors @ output_tensors)))"
    by (auto simp add: compute_visualizations_def split: sum.splits)
  from lookup_all_length [OF i] lookup_all_length [OF o]
  have "map fst (zip (input_keys self @ output_keys self)
          (map (denorm_tensor (denorm self)) (input_tensors @ output_tensors)))
        = input_keys self @ output_keys self"
    by (intro map_fst_zip) simp
  with v False show ?thesis
    by (simp only: dict_of_pairs_length images_per_visualization_def if_False)
qed

lemma visualize_images:
  assumes "visualize cat3 make_grid self state = Inr (self', state')"
  shows "images_logged state' = images_logged state + images_per_visualization self"
  using visualize_result [OF assms] compute_visualizations_length by auto

lemma images_per_visualization_pos:
  "input_keys self @ output_keys self \<noteq> [] \<Longrightarrow> 0 < images_per_visualization self"
  by (auto simp add: images_per_visualization_def card_gt_0_iff)

lemma on_batch_end_unfold:
  "batch_frequency self \<noteq> 0 \<Longrightarrow>
   VisualizationCallback_on_batch_end cat3 make_grid self state
   = (if (loader_batch_count self + 1) mod batch_frequency self \<noteq> 0
      then visualize cat3 make_grid
             (self\<lparr>loader_batch_count := loader_batch_count self + 1\<rparr>) state
      else Inr (self\<lparr>loader_batch_count := loader_batch_count self + 1\<rparr>, state))"
  by (simp add: VisualizationCallback_on_batch_end_def Let_def)

lemma on_batch_end_result:
  assumes "VisualizationCallback_on_batch_end cat3 make_grid self state = Inr (self', state')"
  shows "batch_frequency self \<noteq> 0
       \<and> self' = self\<lparr>loader_batch_count := loader_batch_count self + 1,
                      loader_visualized_in_current_epoch :=
                        (loader_visualized_in_current_epoch self
                         \<or> (loader_batch_count self + 1) mod batch_frequency self \<noteq> 0)\<rparr>
       \<and> images_logged state'
           = images_logged state
             + (if (loader_batch_count self + 1) mod batch_frequency self \<noteq> 0
                then images_per_visualization self else 0)
       \<and> loader_name state' = loader_name state"
proof -
  from assms have bf: "batch_frequency self \<noteq> 0"
    by (auto simp add: VisualizationCallback_on_batch_end_def Let_def split: if_splits)
  let ?self = "self\<lparr>loader_batch_count := loader_batch_count self + 1\<rparr>"
  show ?thesis
  proof (cases "(loader_batch_count self + 1) mod batch_frequency self \<noteq> 0")
    case True
    with assms bf have v: "visualize cat3 make_grid ?self state = Inr (self', state')"
      by (simp add: on_batch_end_unfold)
    from visualize_result [OF v] visualize_images [OF v] bf True show ?thesis
      by (auto simp add: images_per_visualization_def)
  next
    case False
    with assms bf have "self' = ?self" "state' = state"
      by (simp_all add: on_batch_end_unfold)
    with bf False show ?thesis by simp
  qed
qed

subsection \<open>A run of batches\<close>

lemma images_logged_load_batch: "images_logged (load_batch b state) = images_logged state"
  by (cases b) (simp add: images_logged_def get_tensorboard_logger_def split: option.splits)

lemma visualizing_shift:
  "length (filter (\<lambda>k. P (c + int k)) [1..<Suc (Suc n)])
   = (if P (c + 1) then 1 else 0) + length (filter (\<lambda>k. P (c + 1 + int k)) [1..<Suc n])"
proof -
  have "[1..<Suc (Suc n)] = 1 # map Suc [1..<Suc n]"
    by (simp add: upt_conv_Cons map_Suc_upt del: upt_Suc)
  then have "filter (\<lambda>k. P (c + int k)) [1..<Suc (Suc n)]
             = filter (\<lambda>k. P (c + int k)) (1 # map Suc [1..<Suc n])"
    by (simp only:)
  also have "length \<dots> = (if P (c + 1) then 1 else 0)
               + length (filter (\<lambda>k. P (c + int (Suc k))) [1..<Suc n])"
    by (simp add: filter_map comp_def del: upt_Suc)
  also have "(\<lambda>k. P (c + int (Suc k))) = (\<lambda>k. P (c + 1 + int k))"
    by (simp add: ac_simps)
  finally show ?thesis .
qed

lemma run_batches_result:
  assumes "run_batches cat3 make_grid self state bs = Inr (self', state')"
  shows "self' = self\<lparr>loader_batch_count := loader_batch_count self + int (length bs),
                      loader_visualized_in_current_epoch :=
                        (loader_visualized_in_current_epoch self
                         \<or> filter (\<lambda>k. (loader_batch_count self + int k) mod batch_frequency self \<noteq> 0)
                              [1..<Suc (length bs)] \<noteq> [])\<rparr>
       \<and> images_logged state'
           = images_logged state
             + images_per_visualization self
               * length (filter (\<lambda>k. (loader_batch_count self + int k) mod batch_frequency self \<noteq> 0)
                           [1..<Suc (length bs)])
       \<and> loader_name state' = loader_name state"
  using assms
proof (induction bs arbitrary: self state)
  case Nil
  then show ?case by simp
next
  case (Cons b bs)
  from Cons.prems obtain self1 state1 where
    one: "VisualizationCallback_on_batch_end cat3 make_grid self (load_batch b state)
          = Inr (self1, state1)"
    and rest: "run_batches cat3 make_grid self1 state1 bs = Inr (self', state')"
    by (auto split: sum.splits)
  let ?P = "\<lambda>c. c mod batch_frequency self \<noteq> 0"
  let ?c = "loader_batch_count self"
  from on_batch_end_result [OF one] have
    s1: "self1 = self\<lparr>loader_batch_count := ?c + 1,
                      loader_visualized_in_current_epoch :=
                        (loader_visualized_in_current_epoch self \<or> ?P (?c + 1))\<rparr>"
    and i1: "images_logged state1
             = images_logged state + (if ?P (?c + 1) then images_per_visualization self else 0)"
    and n1: "loader_name state1 = loader_name state"
    by (simp_all add: images_logged_load_batch) (cases b; simp)
  have f1: "loader_batch_count self1 = ?c + 1" "batch_frequency self1 = batch_frequency self"
    "loader_visualized_in_current_epoch self1
     = (loader_visualized_in_current_epoch self \<or> ?P (?c + 1))"
    "images_per_visualization self1 = images_per_visualization self"
    using s1 by (simp_all add: images_per_visualization_def)
  have u: "self1\<lparr>loader_batch_count := X, loader_visualized_in_current_epoch := Y\<rparr>
           = self\<lparr>loader_batch_count := X, loader_visualized_in_current_epoch := Y\<rparr>" for X Y
    using s1 by simp
  from Cons.IH [OF rest, unfolded f1 u] have
    s': "self' = self\<lparr>loader_batch_count := ?c + 1 + int (length bs),
                      loader_visualized_in_current_epoch :=
                        ((loader_visualized_in_current_epoch self \<or> ?P (?c + 1))
                         \<or> filter (\<lambda>k. ?P (?c + 1 + int k)) [1..<Suc (length bs)] \<noteq> [])\<rparr>"
    and i': "images_logged state'
             = images_logged state1
               + images_per_visualization self
                 * length (filter (\<lambda>k. ?P (?c + 1 + int k)) [1..<Suc (length bs)])"
    and n': "loader_name state' = loader_name state1"
    by (simp_all del: upt_Suc)
  note sh = visualizing_shift [of ?P ?c "length bs"]
  have ne: "(filter (\<lambda>k. ?P (?c + int k)) [1..<Suc (length (b # bs))] \<noteq> [])
            = (?P (?c + 1) \<or> filter (\<lambda>k. ?P (?c + 1 + int k)) [1..<Suc (length bs)] \<noteq> [])"
    using sh by (simp only: length_0_conv [symmetric] list.size) (auto split: if_splits)
  have len: "length (filter (\<lambda>k. ?P (?c + int k)) [1..<Suc (length (b # bs))])
             = (if ?P (?c + 1) then 1 else 0)
               + length (filter (\<lambda>k. ?P (?c + 1 + int k)) [1..<Suc (length bs)])"
    using sh by (simp del: upt_Suc)
  have "self' = self\<lparr>loader_batch_count := ?c + int (length (b # bs)),
                      loader_visualized_in_current_epoch :=
                        (loader_visualized_in_current_epoch self
                         \<or> filter (\<lambda>k. ?P (?c + int k)) [1..<Suc (length (b # bs))] \<noteq> [])\<rparr>"
    unfolding ne using s' by (simp add: ac_simps del: upt_Suc)
  moreover have "images_logged state'
           = images_logged state
             + images_per_visualization self
               * length (filter (\<lambda>k. ?P (?c + int k)) [1..<Suc (length (b # bs))])"
    unfolding len using i' i1 by (simp add: algebra_simps del: upt_Suc)
  moreover from n' n1 have "loader_name state' = loader_name state" by simp
  ultimately show ?case by (intro conjI)
qed

subsection \<open>Counters that are not multiples of the frequency\<close>

lemma div_succ:
  fixes a b :: int
  assumes "0 < b"
  shows "(a + 1) div b = a div b + (if (a + 1) mod b = 0 then 1 else 0)"
proof (cases "(a + 1) mod b = 0")
  case True
  then obtain q where q: "a + 1 = b * q" by (auto simp add: mod_eq_0_iff_dvd)
  then have "a = b * (q - 1) + (b - 1)" by (simp add: algebra_simps)
  then have "a div b = q - 1"
    using assms by (intro int_div_pos_eq [where r = "b - 1"]) simp_all
  moreover from q assms have "(a + 1) div b = q" by simp
  ultimately show ?thesis using True by simp
next
  case False
  have r: "0 \<le> a mod b" "a mod b < b" using assms by simp_all
  have "a mod b + 1 \<noteq> b"
  proof
    assume "a mod b + 1 = b"
    then have "(a mod b + 1) mod b = 0" by simp
    then have "(a + 1) mod b = 0" by (simp add: mod_add_left_eq)
    with False show False by simp
  qed
  with r have lt: "a mod b + 1 < b" by simp
  have "a + 1 = b * (a div b) + (a mod b + 1)" by simp
  then have "(a + 1) div b = a div b"
    using r(1) lt by (intro int_div_pos_eq [where r = "a mod b + 1"]) simp_all
  with False show ?thesis by simp
qed

lemma visualizing_count:
  fixes bf c :: int
  assumes "0 < bf"
  shows "int (length (filter (\<lambda>k. (c + int k) mod bf \<noteq> 0) [1..<Suc n]))
         = int n - ((c + int n) div bf - c div bf)"
proof (induction n)
  case 0
  show ?case by simp
next
  case (Suc n)
  have e: "c + int (Suc n) = c + int n + 1" by simp
  have d: "(c + int (Suc n)) div bf
        = (c + int n) div bf + (if (c + int (Suc n)) mod bf = 0 then 1 else 0)"
    unfolding e by (rule div_succ [OF assms])
  have "[1..<Suc (Suc n)] = [1..<Suc n] @ [Suc n]" by simp
  then have "int (length (filter (\<lambda>k. (c + int k) mod bf \<noteq> 0) [1..<Suc (Suc n)]))
        = int (length (filter (\<lambda>k. (c + int k) mod bf \<noteq> 0) [1..<Suc n]))
          + (if (c + int (Suc n)) mod bf \<noteq> 0 then 1 else 0)"
    by (simp only: filter_append length_append) simp
  also have "\<dots> = int n - ((c + int n) div bf - c div bf)
          + (if (c + int (Suc n)) mod bf \<noteq> 0 then 1 else 0)"
    by (simp only: Suc.IH)
  also have "\<dots> = int (Suc n) - ((c + int (Suc n)) div bf - c div bf)"
    unfolding d by simp
  finally show ?case .
qed

lemma visualizing_count_period:
  fixes c :: int
  assumes "0 < n"
  shows "length (filter (\<lambda>k. (c + int k) mod int n \<noteq> 0) [1..<Suc n]) = n - 1"
proof -
  from assms have "0 < int n" by simp
  from visualizing_count [OF this, of c n] assms
  have "int (length (filter (\<lambda>k. (c + int k) mod int n \<noteq> 0) [1..<Suc n])) = int n - 1"
    by simp
  with assms show ?thesis by linarith
qed

subsection \<open>The visualization on a concrete state\<close>

lemma visualize_image:
  "visualize cat_single plain_grid (image_callback HalfPlusHalf\<lparr>loader_batch_count := c,
      loader_visualized_in_current_epoch := f\<rparr>) (logged_state w)
   = Inr (image_callback HalfPlusHalf\<lparr>loader_batch_count := c,
            loader_visualized_in_current_epoch := True\<rparr>,
          logged_state ((''image'', half_image, 0) # w))"
  by (simp add: visualize_def compute_visualizations_def save_visualizations_def
      get_tensorboard_logger_def image_callback_def logged_state_def empty_state_def
      cat_single_def plain_grid_def one_image_def half_image_def slice_to_def slice_stop_def)

lemma load_image_batch: "load_batch image_batch (logged_state w) = logged_state w"
  by (simp add: image_batch_def logged_state_def empty_state_def)

lemma images_logged_state: "images_logged (logged_state w) = length w"
  by (simp add: images_logged_def get_tensorboard_logger_def logged_state_def empty_state_def)

lemma batch_end_image:
  "VisualizationCallback_on_batch_end cat_single plain_grid
     (image_callback HalfPlusHalf\<lparr>loader_batch_count := c,
        loader_visualized_in_current_epoch := f\<rparr>) (logged_state w)
   = (if (c + 1) mod 25 \<noteq> 0
      then Inr (image_callback HalfPlusHalf\<lparr>loader_batch_count := c + 1,
                  loader_visualized_in_current_epoch := True\<rparr>,
                logged_state ((''image'', half_image, 0) # w))
      else Inr (image_callback HalfPlusHalf\<lparr>loader_batch_count := c + 1,
                  loader_visualized_in_current_epoch := f\<rparr>,
                logged_state w))"
proof -
  have bf: "batch_frequency (image_callback HalfPlusHalf\<lparr>loader_batch_count := c,
        loader_visualized_in_current_epoch := f\<rparr>) = 25"
    by (simp add: image_callback_def)
  show ?thesis
    using visualize_image [where c = "c + 1" and f = f and w = w]
    by (simp add: on_batch_end_unfold bf image_callback_def)
qed

lemma run_image_batches:
  "\<exists>c' f' w'.
     run_batches cat_single plain_grid
       (image_callback HalfPlusHalf\<lparr>loader_batch_count := c,
          loader_visualized_in_current_epoch := f\<rparr>) (logged_state w)
       (replicate n image_batch)
     = Inr (image_callback HalfPlusHalf\<lparr>loader_batch_count := c',
              loader_visualized_in_current_epoch := f'\<rparr>, logged_state w')"
proof (induction n arbitrary: c f w)
  case 0
  show ?case by auto
next
  case (Suc n)
  show ?case
  proof (cases "(c + 1) mod 25 \<noteq> 0")
    case True
    with Suc.IH [where c = "c + 1" and f = True and w = "(''image'', half_image, 0) # w"] show ?thesis
      by (simp add: load_image_batch batch_end_image)
  next
    case False
    with Suc.IH [where c = "c + 1" and f = f and w = w] show ?thesis
      by (simp add: load_image_batch batch_end_image)
  qed
qed

lemma image_callback_fresh:
  "image_callback d\<lparr>loader_batch_count := 0, loader_visualized_in_current_epoch := False\<rparr>
   = image_callback d"
  by (simp add: image_callback_def)

subsection \<open>A loader pass\<close>

lemma on_loader_end_unfold:
  "VisualizationCallback_on_loader_end cat3 make_grid self state
   = (if loader_visualized_in_current_epoch self then Inr (self, state)
      else visualize cat3 make_grid self state)"
  by (simp add: VisualizationCallback_on_loader_end_def)

lemma visualize_flag:
  "visualize cat3 make_grid self state = Inr (self', state')
   \<Longrightarrow> loader_visualized_in_current_epoch self'"
  by (auto dest: visualize_result)

lemma on_loader_end_flag:
  "VisualizationCallback_on_loader_end cat3 make_grid self state = Inr (self', state')
   \<Longrightarrow> loader_visualized_in_current_epoch self'"
  by (auto simp add: on_loader_end_unfold split: if_splits dest: visualize_flag)

lemma loader_pass_result:
  assumes "loader_pass cat3 make_grid self state bs = Inr (self', state')"
    and "input_keys self @ output_keys self \<noteq> []"
  shows "\<exists>self1 state1.
           run_batches cat3 make_grid (VisualizationCallback_on_loader_start self state) state bs
             = Inr (self1, state1)
         \<and> VisualizationCallback_on_loader_end cat3 make_grid self1 state1 = Inr (self', state')
         \<and> loader_visualized_in_current_epoch self1
             = (images_logged state < images_logged state1)
         \<and> (if images_logged state1 = images_logged state
             then visualize cat3 make_grid self1 state1 = Inr (self', state')
                \<and> images_logged state' = images_logged state1 + images_per_visualization self
             else self' = self1 \<and> state' = state1)
         \<and> images_logged state < images_logged state'"
proof -
  let ?start = "VisualizationCallback_on_loader_start self state"
  from assms(1) obtain self1 state1 where
    run: "run_batches cat3 make_grid ?start state bs = Inr (self1, state1)"
    and fin: "VisualizationCallback_on_loader_end cat3 make_grid self1 state1
              = Inr (self', state')"
    by (auto simp add: loader_pass_def split: sum.splits)
  have start: "loader_batch_count ?start = 0" "\<not> loader_visualized_in_current_epoch ?start"
    "batch_frequency ?start = batch_frequency self"
    "images_per_visualization ?start = images_per_visualization self"
    by (simp_all add: VisualizationCallback_on_loader_start_def VisualizationCallback_reset_def
        images_per_visualization_def)
  let ?n = "length (filter (\<lambda>k. (0 + int k) mod batch_frequency self \<noteq> 0)
                      [1..<Suc (length bs)])"
  note rb = run_batches_result [OF run, unfolded start]
  from rb [THEN conjunct1]
  have flag1: "loader_visualized_in_current_epoch self1 = (?n \<noteq> 0)"
    by (simp add: start del: upt_Suc)
  from rb [THEN conjunct2, THEN conjunct1]
  have img1: "images_logged state1 = images_logged state + images_per_visualization self * ?n" .
  from rb [THEN conjunct1]
  have keys1: "images_per_visualization self1 = images_per_visualization self"
    by (simp add: images_per_visualization_def VisualizationCallback_on_loader_start_def
        VisualizationCallback_reset_def del: upt_Suc)
  from assms(2) have pos: "0 < images_per_visualization self"
    by (rule images_per_visualization_pos)
  from img1 pos have grew: "(images_logged state < images_logged state1) = (?n \<noteq> 0)"
    by simp
  with flag1 have flag: "loader_visualized_in_current_epoch self1
                         = (images_logged state < images_logged state1)"
    by simp
  from img1 have mono: "images_logged state \<le> images_logged state1" by simp
  have last: "if images_logged state1 = images_logged state
             then visualize cat3 make_grid self1 state1 = Inr (self', state')
                \<and> images_logged state' = images_logged state1 + images_per_visualization self
             else self' = self1 \<and> state' = state1"
  proof (cases "images_logged state1 = images_logged state")
    case True
    with flag have "\<not> loader_visualized_in_current_epoch self1" by simp
    with fin have v: "visualize cat3 make_grid self1 state1 = Inr (self', state')"
      by (simp add: on_loader_end_unfold)
    from visualize_images [OF v] keys1 v True show ?thesis by simp
  next
    case False
    with mono flag have "loader_visualized_in_current_epoch self1" by simp
    with fin False show ?thesis by (simp add: on_loader_end_unfold)
  qed
  from last mono pos have more: "images_logged state < images_logged state'"
    by (auto split: if_splits)
  from run fin flag last more show ?thesis by blast
qed

lemma loader_pass_no_batches:
  "loader_pass cat_single plain_grid (image_callback HalfPlusHalf) (logged_state []) []
   = Inr (image_callback HalfPlusHalf\<lparr>loader_batch_count := 0,
            loader_visualized_in_current_epoch := True\<rparr>,
          logged_state [(''image'', half_image, 0)])"
  by (simp add: loader_pass_def VisualizationCallback_on_loader_start_def
      VisualizationCallback_reset_def on_loader_end_unfold visualize_image)

lemma loader_pass_one_batch:
  "loader_pass cat_single plain_grid (image_callback HalfPlusHalf) (logged_state [])
     [image_batch]
   = Inr (image_callback HalfPlusHalf\<lparr>loader_batch_count := 1,
            loader_visualized_in_current_epoch := True\<rparr>,
          logged_state [(''image'', half_image, 0)])"
  by (simp add: loader_pass_def VisualizationCallback_on_loader_start_def
      VisualizationCallback_reset_def on_loader_end_unfold load_image_batch batch_end_image)

section \<open>Wasserstein distance\<close>

lemma wasserstein_metric_call:
  assumes "output' state real_key = Some real_validity"
    and "output' state fake_key = Some fake_validity"
  shows "WassersteinDistanceCallback_on_batch_end mean sub
           (WassersteinDistanceCallback_init p real_key fake_key) state
         = (case mean real_validity of
              Inl e \<Rightarrow> Inl e
            | Inr real_mean \<Rightarrow>
                (case mean fake_validity of
                   Inl e \<Rightarrow> Inl e
                 | Inr fake_mean \<Rightarrow>
                     (case sub real_mean fake_mean of
                        Inl e \<Rightarrow> Inl e
                      | Inr metric \<Rightarrow>
                          Inr (state\<lparr>metrics :=
                            add_batch_value (metrics state) p metric\<rparr>))))"
proof -
  have "real_validity = fake_validity" if "real_key = fake_key"
    using that assms by simp
  with assms show ?thesis
    by (auto simp add: WassersteinDistanceCallback_on_batch_end_def
        MultiKeyMetricCallback_on_batch_end_def WassersteinDistanceCallback_init_def
        get_wasserstein_distance_def split: sum.splits)
qed

text \<open>
  C1, as amended. Let the output dictionary hold tensors under the real-validity key
  and the fake-validity key. If the tensor library's \<^verbatim>\<open>mean()\<close> returns for both and
  the subtraction of the two means returns, \<^verbatim>\<open>WassersteinDistanceCallback.on_batch_end\<close>
  returns and changes the state in one place only: it passes to \<^verbatim>\<open>add_batch_value\<close>,
  under the callback's prefix, the mean of the real validity minus the mean of the fake
  validity; the metrics then hold exactly that value under the prefix and are unchanged
  elsewhere. If \<^verbatim>\<open>mean()\<close> or the subtraction raises, \<^verbatim>\<open>on_batch_end\<close> raises the
  same error and nothing is recorded.
\<close>

theorem wasserstein_distance_recorded:
  assumes "output' state real_key = Some real_validity"
    and "output' state fake_key = Some fake_validity"
  shows "(mean real_validity = Inr real_mean \<and> mean fake_validity = Inr fake_mean
          \<and> sub real_mean fake_mean = Inr metric
          \<longrightarrow> (\<exists>state'.
                 WassersteinDistanceCallback_on_batch_end mean sub
                   (WassersteinDistanceCallback_init p real_key fake_key) state = Inr state'
               \<and> state' = state\<lparr>metrics := add_batch_value (metrics state) p metric\<rparr>
               \<and> metrics state' p = Some metric
               \<and> (\<forall>k. k \<noteq> p \<longrightarrow> metrics state' k = metrics state k)))
       \<and> (mean real_validity = Inl e
          \<longrightarrow> WassersteinDistanceCallback_on_batch_end mean sub
                (WassersteinDistanceCallback_init p real_key fake_key) state = Inl e)
       \<and> (mean real_validity = Inr real_mean \<and> mean fake_validity = Inl e
          \<longrightarrow> WassersteinDistanceCallback_on_batch_end mean sub
                (WassersteinDistanceCallback_init p real_key fake_key) state = Inl e)
       \<and> (mean real_validity = Inr real_mean \<and> mean fake_validity = Inr fake_mean
          \<and> sub real_mean fake_mean = Inl e
          \<longrightarrow> WassersteinDistanceCallback_on_batch_end mean sub
                (WassersteinDistanceCallback_init p real_key fake_key) state = Inl e)"
  by (simp add: wasserstein_metric_call [OF assms] add_batch_value_def)

text \<open>
  With integer tensors under the two keys nothing is recorded: \<^verbatim>\<open>mean()\<close> raises
  \<^verbatim>\<open>RuntimeError\<close> on an integer tensor, and so does \<^verbatim>\<open>on_batch_end\<close>.
\<close>

theorem wasserstein_integer_tensors_counterexample:
  "output' integer_validity_state ''real_validity''
     = Some (LongTensor \<lparr>shape = [2], elems = [1, 3]\<rparr>)
   \<and> output' integer_validity_state ''fake_validity''
     = Some (LongTensor \<lparr>shape = [2], elems = [0, 1]\<rparr>)
   \<and> WassersteinDistanceCallback_on_batch_end float_mean scalar_sub
        (WassersteinDistanceCallback_init ''wasserstein_distance'' ''real_validity''
           ''fake_validity'') integer_validity_state
       = Inl RuntimeError"
  by (simp add: WassersteinDistanceCallback_on_batch_end_def
      MultiKeyMetricCallback_on_batch_end_def WassersteinDistanceCallback_init_def
      get_wasserstein_distance_def integer_validity_state_def empty_state_def)

theorem wasserstein_distance_recorded_witness:
  "output' validity_state ''real_validity'' = Some (FloatTensor \<lparr>shape = [2], elems = [1, 3]\<rparr>)
   \<and> output' validity_state ''fake_validity'' = Some (FloatTensor \<lparr>shape = [2], elems = [0, 1]\<rparr>)
   \<and> float_mean (FloatTensor \<lparr>shape = [2], elems = [1, 3]\<rparr>)
       = Inr (FloatTensor \<lparr>shape = [], elems = [2]\<rparr>)
   \<and> float_mean (FloatTensor \<lparr>shape = [2], elems = [0, 1]\<rparr>)
       = Inr (FloatTensor \<lparr>shape = [], elems = [1 / 2]\<rparr>)
   \<and> scalar_sub (FloatTensor \<lparr>shape = [], elems = [2]\<rparr>)
         (FloatTensor \<lparr>shape = [], elems = [1 / 2]\<rparr>)
       = Inr (FloatTensor \<lparr>shape = [], elems = [3 / 2]\<rparr>)
   \<and> (\<exists>state'.
         WassersteinDistanceCallback_on_batch_end float_mean scalar_sub
           (WassersteinDistanceCallback_init ''wasserstein_distance'' ''real_validity''
              ''fake_validity'') validity_state = Inr state'
       \<and> metrics state' ''wasserstein_distance''
           = Some (FloatTensor \<lparr>shape = [], elems = [3 / 2]\<rparr>))
   \<and> output' integer_validity_state ''real_validity''
       = Some (LongTensor \<lparr>shape = [2], elems = [1, 3]\<rparr>)
   \<and> float_mean (LongTensor \<lparr>shape = [2], elems = [1, 3]\<rparr>) = Inl RuntimeError
   \<and> WassersteinDistanceCallback_on_batch_end float_mean scalar_sub
        (WassersteinDistanceCallback_init ''wasserstein_distance'' ''real_validity''
           ''fake_validity'') integer_validity_state
       = Inl RuntimeError"
proof -
  have h1: "output' validity_state ''real_validity''
            = Some (FloatTensor \<lparr>shape = [2], elems = [1, 3]\<rparr>)"
    by (simp add: validity_state_def)
  have h2: "output' validity_state ''fake_validity''
            = Some (FloatTensor \<lparr>shape = [2], elems = [0, 1]\<rparr>)"
    by (simp add: validity_state_def)
  have m1: "float_mean (FloatTensor \<lparr>shape = [2], elems = [1, 3]\<rparr>)
            = Inr (FloatTensor \<lparr>shape = [], elems = [2]\<rparr>)"
    by simp
  have m2: "float_mean (FloatTensor \<lparr>shape = [2], elems = [0, 1]\<rparr>)
            = Inr (FloatTensor \<lparr>shape = [], elems = [1 / 2]\<rparr>)"
    by simp
  have d: "scalar_sub (FloatTensor \<lparr>shape = [], elems = [2]\<rparr>)
             (FloatTensor \<lparr>shape = [], elems = [1 / 2]\<rparr>)
           = Inr (FloatTensor \<lparr>shape = [], elems = [3 / 2]\<rparr>)"
    by simp
  note t = wasserstein_distance_recorded [OF h1 h2, where mean = float_mean
      and sub = scalar_sub and p = "''wasserstein_distance''"]
  from t [THEN conjunct1, THEN mp, OF conjI [OF m1 conjI [OF m2 d]]]
  obtain state' where r:
    "WassersteinDistanceCallback_on_batch_end float_mean scalar_sub
           (WassersteinDistanceCallback_init ''wasserstein_distance'' ''real_validity''
              ''fake_validity'') validity_state = Inr state'"
    "metrics state' ''wasserstein_distance''
     = Some (FloatTensor \<lparr>shape = [], elems = [3 / 2]\<rparr>)"
    by blast
  have g1: "output' integer_validity_state ''real_validity''
            = Some (LongTensor \<lparr>shape = [2], elems = [1, 3]\<rparr>)"
    by (simp add: integer_validity_state_def)
  have g2: "output' integer_validity_state ''fake_validity''
            = Some (LongTensor \<lparr>shape = [2], elems = [0, 1]\<rparr>)"
    by (simp add: integer_validity_state_def)
  have e: "float_mean (LongTensor \<lparr>shape = [2], elems = [1, 3]\<rparr>) = Inl RuntimeError"
    by simp
  note u = wasserstein_distance_recorded [OF g1 g2, where mean = float_mean
      and sub = scalar_sub and p = "''wasserstein_distance''"]
  from u [THEN conjunct2, THEN conjunct1, THEN mp, OF e]
  have f: "WassersteinDistanceCallback_on_batch_end float_mean scalar_sub
        (WassersteinDistanceCallback_init ''wasserstein_distance'' ''real_validity''
           ''fake_validity'') integer_validity_state
       = Inl RuntimeError" .
  from h1 h2 m1 m2 d r g1 e f show ?thesis by blast
qed

section \<open>Weight clamping\<close>

lemma clamp_bounds:
  assumes "fnum_le lo hi"
  shows "fnum_le lo (fnum_min (fnum_max x lo) hi) \<and> fnum_le (fnum_min (fnum_max x lo) hi) hi"
  using assms
  by (cases x; cases lo; cases hi) (simp_all add: fnum_min_def fnum_max_def)

lemma clamp_NaN: "(clamp lo hi x = NaN) = (x = NaN)"
  by (cases x) simp_all

lemma NaN_clamp: "(NaN = clamp lo hi x) = (NaN = x)"
  by (cases x) simp_all

lemma in_range_clamp:
  "fnum_le lo hi \<Longrightarrow> in_range lo hi (map (clamp lo hi) xs)"
proof -
  assume le: "fnum_le lo hi"
  have "clamp lo hi x = NaN
        \<or> (\<exists>v. clamp lo hi x = Num v \<and> fnum_le lo v \<and> fnum_le v hi)" for x
    using clamp_bounds [OF le] by (cases x) simp_all
  then show ?thesis
    by (auto simp add: in_range_def)
qed

lemma clamp_param_in_range:
  "fnum_le (to_dtype a (- c)) (to_dtype a c)
   \<Longrightarrow> in_range (to_dtype a (- c)) (to_dtype a c) (clamp_param to_dtype c store a a)"
  by (simp add: clamp_param_def in_range_clamp)

lemma clamp_param_keeps:
  "fnum_le (to_dtype b (- c)) (to_dtype b c)
   \<Longrightarrow> in_range (to_dtype b (- c)) (to_dtype b c) (store b)
   \<Longrightarrow> in_range (to_dtype b (- c)) (to_dtype b c) (clamp_param to_dtype c store a b)"
  by (auto simp add: clamp_param_def in_range_clamp)

lemma clamp_params_keeps:
  "fnum_le (to_dtype b (- c)) (to_dtype b c)
   \<Longrightarrow> in_range (to_dtype b (- c)) (to_dtype b c) (store b)
   \<Longrightarrow> in_range (to_dtype b (- c)) (to_dtype b c) (clamp_params to_dtype c ps store b)"
  by (induction ps arbitrary: store) (simp_all add: clamp_param_keeps)

lemma clamp_params_in_range:
  "fnum_le (to_dtype a (- c)) (to_dtype a c) \<Longrightarrow> a \<in> set ps
   \<Longrightarrow> in_range (to_dtype a (- c)) (to_dtype a c) (clamp_params to_dtype c ps store a)"
proof (induction ps arbitrary: store)
  case Nil
  then show ?case by simp
next
  case (Cons p ps)
  show ?case
  proof (cases "a = p")
    case True
    with Cons.prems(1) show ?thesis
      by (simp add: clamp_params_keeps clamp_param_in_range)
  next
    case False
    with Cons show ?thesis by simp
  qed
qed

lemma clamp_groups_keeps:
  "fnum_le (to_dtype b (- c)) (to_dtype b c)
   \<Longrightarrow> clamp_groups to_dtype c gs store = Inr store'
   \<Longrightarrow> in_range (to_dtype b (- c)) (to_dtype b c) (store b)
   \<Longrightarrow> in_range (to_dtype b (- c)) (to_dtype b c) (store' b)"
proof (induction gs arbitrary: store)
  case Nil
  then show ?case by simp
next
  case (Cons g gs)
  from Cons.prems(2) obtain ps where "g ''params'' = Some ps"
    and rest: "clamp_groups to_dtype c gs (clamp_params to_dtype c ps store) = Inr store'"
    by (auto split: option.splits)
  from Cons.prems(1,3)
  have "in_range (to_dtype b (- c)) (to_dtype b c) (clamp_params to_dtype c ps store b)"
    by (rule clamp_params_keeps)
  with Cons.prems(1) rest show ?case by (rule Cons.IH)
qed

lemma clamp_groups_in_range:
  "fnum_le (to_dtype a (- c)) (to_dtype a c)
   \<Longrightarrow> clamp_groups to_dtype c gs store = Inr store' \<Longrightarrow> g \<in> set gs
   \<Longrightarrow> g ''params'' = Some ps \<Longrightarrow> a \<in> set ps
   \<Longrightarrow> in_range (to_dtype a (- c)) (to_dtype a c) (store' a)"
proof (induction gs arbitrary: store)
  case Nil
  then show ?case by simp
next
  case (Cons h gs)
  from Cons.prems(2) obtain hs where hs: "h ''params'' = Some hs"
    and rest: "clamp_groups to_dtype c gs (clamp_params to_dtype c hs store) = Inr store'"
    by (auto split: option.splits)
  show ?case
  proof (cases "g = h")
    case True
    with hs Cons.prems(4) have "hs = ps" by simp
    with Cons.prems(1,5)
    have "in_range (to_dtype a (- c)) (to_dtype a c) (clamp_params to_dtype c hs store a)"
      by (simp add: clamp_params_in_range)
    with Cons.prems(1) rest show ?thesis
      by (rule clamp_groups_keeps)
  next
    case False
    with Cons.prems(3) have "g \<in> set gs" by simp
    from Cons.IH [OF Cons.prems(1) rest this Cons.prems(4,5)] show ?thesis .
  qed
qed

lemma clamp_param_NaN:
  "(NaN \<in> set (clamp_param to_dtype c store a b)) = (NaN \<in> set (store b))"
proof -
  have "(NaN \<in> set (map (clamp lo hi) xs)) = (NaN \<in> set xs)" for lo hi xs
    by (induction xs) (auto simp add: clamp_NaN NaN_clamp)
  then show ?thesis
    by (simp add: clamp_param_def)
qed

lemma clamp_params_NaN:
  "(NaN \<in> set (clamp_params to_dtype c ps store b)) = (NaN \<in> set (store b))"
  by (induction ps arbitrary: store) (simp_all add: clamp_param_NaN)

lemma clamp_groups_NaN:
  "clamp_groups to_dtype c gs store = Inr store'
   \<Longrightarrow> (NaN \<in> set (store' b)) = (NaN \<in> set (store b))"
proof (induction gs arbitrary: store)
  case Nil
  then show ?case by simp
next
  case (Cons g gs)
  from Cons.prems obtain ps where
    "clamp_groups to_dtype c gs (clamp_params to_dtype c ps store) = Inr store'"
    by (auto split: option.splits)
  from Cons.IH [OF this] show ?case by (simp add: clamp_params_NaN)
qed

lemma weight_clamping_store:
  assumes "super_on_batch_end self0 state0 = Inr (self, state)"
    and "need_backward state"
    and "accumulation_counter self mod accumulation_steps self = 0"
    and "get_key state ''optimizer'' (optimizer_key self) = Inr opt"
    and "WeightClampingOptimizerCallback_on_batch_end to_dtype super_on_batch_end get_key
           self0 state0 = Inr (self', state')"
  shows "self' = self \<and> state' = state\<lparr>params_data := params_data state'\<rparr>
       \<and> clamp_groups to_dtype (weight_clamp_value self) (param_groups opt) (params_data state)
           = Inr (params_data state')"
  using assms
  by (auto simp add: WeightClampingOptimizerCallback_on_batch_end_def Let_def
      split: if_splits sum.splits)

lemma weight_clamping_skipped:
  assumes "super_on_batch_end self0 state0 = Inr (self, state)"
    and "\<not> need_backward state"
  shows "WeightClampingOptimizerCallback_on_batch_end to_dtype super_on_batch_end get_key
           self0 state0 = Inr (self, state)"
  using assms by (simp add: WeightClampingOptimizerCallback_on_batch_end_def)

text \<open>
  C2, as amended. Let the inherited \<^verbatim>\<open>on_batch_end\<close> have returned the callback \<open>self\<close>
  and the state \<open>state\<close>, and let \<^verbatim>\<open>weight_clamp_value\<close> be a finite number. If
  \<^verbatim>\<open>state.need_backward\<close> holds and the accumulation counter is a multiple of
  \<^verbatim>\<open>accumulation_steps\<close>, then after \<^verbatim>\<open>WeightClampingOptimizerCallback.on_batch_end\<close> (or
  \<^verbatim>\<open>LipzOptimizerCallback.on_batch_end\<close>) has returned, for every parameter in every param
  group of the selected optimizer: provided \<open>- weight_clamp_value\<close>, converted to the
  parameter's dtype, is not above \<open>weight_clamp_value\<close> converted to that dtype, every
  value of the parameter that is not NaN lies between these two converted bounds; and
  a parameter holds a NaN afterwards exactly if it held one before. If
  \<^verbatim>\<open>state.need_backward\<close> does not hold, the result is what the inherited
  \<^verbatim>\<open>on_batch_end\<close> returned: nothing is clamped.
\<close>

theorem weight_clamping_on_batch_end:
  assumes "on_batch_end = WeightClampingOptimizerCallback_on_batch_end
           \<or> on_batch_end = LipzOptimizerCallback_on_batch_end"
    and "super_on_batch_end self0 state0 = Inr (self, state)"
  shows "(need_backward state
          \<and> accumulation_counter self mod accumulation_steps self = 0
          \<and> get_key state ''optimizer'' (optimizer_key self) = Inr opt
          \<and> on_batch_end to_dtype super_on_batch_end get_key self0 state0 = Inr (self', state')
          \<longrightarrow> (\<forall>g\<in>set (param_groups opt). \<forall>ps. g ''params'' = Some ps \<longrightarrow>
                 (\<forall>a\<in>set ps.
                    fnum_le (to_dtype a (- weight_clamp_value self))
                      (to_dtype a (weight_clamp_value self))
                    \<longrightarrow> (\<forall>x\<in>set (params_data state' a).
                           x = NaN
                           \<or> (\<exists>v. x = Num v
                                 \<and> fnum_le (to_dtype a (- weight_clamp_value self)) v
                                 \<and> fnum_le v (to_dtype a (weight_clamp_value self))))))
              \<and> (\<forall>a. (NaN \<in> set (params_data state' a)) = (NaN \<in> set (params_data state a))))
       \<and> (\<not> need_backward state
          \<longrightarrow> on_batch_end to_dtype super_on_batch_end get_key self0 state0
              = Inr (self, state))"
proof -
  from assms(1) have eq: "on_batch_end = WeightClampingOptimizerCallback_on_batch_end"
    by (auto simp add: LipzOptimizerCallback_on_batch_end_def)
  let ?c = "weight_clamp_value self"
  have store: "clamp_groups to_dtype ?c (param_groups opt) (params_data state)
               = Inr (params_data state')"
    if "need_backward state" "accumulation_counter self mod accumulation_steps self = 0"
      "get_key state ''optimizer'' (optimizer_key self) = Inr opt"
      "on_batch_end to_dtype super_on_batch_end get_key self0 state0 = Inr (self', state')"
    using weight_clamping_store
      [of super_on_batch_end self0 state0 self state get_key opt to_dtype self' state']
      assms(2) that eq
    by simp
  have rng: "in_range (to_dtype a (- ?c)) (to_dtype a ?c) (params_data state' a)"
    if "need_backward state" "accumulation_counter self mod accumulation_steps self = 0"
      "get_key state ''optimizer'' (optimizer_key self) = Inr opt"
      "on_batch_end to_dtype super_on_batch_end get_key self0 state0 = Inr (self', state')"
      "g \<in> set (param_groups opt)" "g ''params'' = Some ps" "a \<in> set ps"
      "fnum_le (to_dtype a (- ?c)) (to_dtype a ?c)" for g ps a
    using clamp_groups_in_range [OF that(8) store [OF that(1-4)] that(5-7)] .
  have nan: "(NaN \<in> set (params_data state' a)) = (NaN \<in> set (params_data state a))"
    if "need_backward state" "accumulation_counter self mod accumulation_steps self = 0"
      "get_key state ''optimizer'' (optimizer_key self) = Inr opt"
      "on_batch_end to_dtype super_on_batch_end get_key self0 state0 = Inr (self', state')"
    for a
    using clamp_groups_NaN [OF store [OF that]] .
  have skip: "on_batch_end to_dtype super_on_batch_end get_key self0 state0 = Inr (self, state)"
    if "\<not> need_backward state"
    using weight_clamping_skipped
      [of super_on_batch_end self0 state0 self state to_dtype get_key] assms(2) that eq
    by simp
  show ?thesis
  proof (intro conjI impI ballI allI)
    fix g ps a x
    assume h: "need_backward state
          \<and> accumulation_counter self mod accumulation_steps self = 0
          \<and> get_key state ''optimizer'' (optimizer_key self) = Inr opt
          \<and> on_batch_end to_dtype super_on_batch_end get_key self0 state0 = Inr (self', state')"
      and "g \<in> set (param_groups opt)" "g ''params'' = Some ps" "a \<in> set ps"
      "fnum_le (to_dtype a (- ?c)) (to_dtype a ?c)" "x \<in> set (params_data state' a)"
    with rng [of g ps a] show "x = NaN
                           \<or> (\<exists>v. x = Num v
                                 \<and> fnum_le (to_dtype a (- ?c)) v
                                 \<and> fnum_le v (to_dtype a ?c))"
      by (simp add: in_range_def)
  next
    fix a
    assume "need_backward state
          \<and> accumulation_counter self mod accumulation_steps self = 0
          \<and> get_key state ''optimizer'' (optimizer_key self) = Inr opt
          \<and> on_batch_end to_dtype super_on_batch_end get_key self0 state0 = Inr (self', state')"
    with nan [of a]
    show "(NaN \<in> set (params_data state' a)) = (NaN \<in> set (params_data state a))"
      by simp
  next
    assume "\<not> need_backward state"
    then show "on_batch_end to_dtype super_on_batch_end get_key self0 state0 = Inr (self, state)"
      by (rule skip)
  qed
qed

theorem weight_clamping_on_batch_end_witness:
  "super_done (clamp_callback 1) weights_state = Inr (clamp_callback 1, weights_state)
   \<and> need_backward weights_state
   \<and> accumulation_counter (clamp_callback 1) mod accumulation_steps (clamp_callback 1) = 0
   \<and> LipzOptimizerCallback_on_batch_end exact_dtype super_done get_one_group_optimizer
        (clamp_callback 1) weights_state
       = Inr (clamp_callback 1,
           weights_state\<lparr>params_data :=
             (\<lambda>_. [])(0 := [Num (Finite 0), Num (Finite 1), NaN])\<rparr>)
   \<and> fnum_le (exact_dtype 0 (- weight_clamp_value (clamp_callback 1)))
        (exact_dtype 0 (weight_clamp_value (clamp_callback 1)))
   \<and> in_range (Finite (- 1)) (Finite 1)
        (params_data (weights_state\<lparr>params_data :=
           (\<lambda>_. [])(0 := [Num (Finite 0), Num (Finite 1), NaN])\<rparr>) 0)
   \<and> NaN \<in> set (params_data weights_state 0)
   \<and> NaN \<in> set (params_data (weights_state\<lparr>params_data :=
           (\<lambda>_. [])(0 := [Num (Finite 0), Num (Finite 1), NaN])\<rparr>) 0)"
proof -
  let ?state' = "weights_state\<lparr>params_data :=
             (\<lambda>_. [])(0 := [Num (Finite 0), Num (Finite 1), NaN])\<rparr>"
  have h1: "super_done (clamp_callback 1) weights_state = Inr (clamp_callback 1, weights_state)"
    by (simp add: super_done_def)
  have h2: "need_backward weights_state"
    by (simp add: weights_state_def empty_state_def)
  have h3: "accumulation_counter (clamp_callback 1) mod accumulation_steps (clamp_callback 1) = 0"
    by (simp add: clamp_callback_def)
  have h5: "get_one_group_optimizer weights_state ''optimizer'' (optimizer_key (clamp_callback 1))
            = Inr one_group_optimizer"
    by (simp add: get_one_group_optimizer_def)
  have h6: "LipzOptimizerCallback_on_batch_end exact_dtype super_done get_one_group_optimizer
        (clamp_callback 1) weights_state
       = Inr (clamp_callback 1, ?state')"
    by (simp add: LipzOptimizerCallback_on_batch_end_def
        WeightClampingOptimizerCallback_on_batch_end_def super_done_def
        get_one_group_optimizer_def one_group_optimizer_def clamp_callback_def weights_state_def
        empty_state_def clamp_param_def exact_dtype_def fnum_min_def fnum_max_def)
  have h7: "fnum_le (exact_dtype 0 (- weight_clamp_value (clamp_callback 1)))
        (exact_dtype 0 (weight_clamp_value (clamp_callback 1)))"
    by (simp add: exact_dtype_def clamp_callback_def)
  have g: "[''params'' \<mapsto> [0::nat]] \<in> set (param_groups one_group_optimizer)"
    by (simp add: one_group_optimizer_def)
  note t = weight_clamping_on_batch_end
      [of LipzOptimizerCallback_on_batch_end super_done "clamp_callback 1" weights_state
        "clamp_callback 1" weights_state get_one_group_optimizer one_group_optimizer
        exact_dtype "clamp_callback 1" ?state', OF _ h1, THEN conjunct1, THEN mp]
  have t': "(\<forall>g\<in>set (param_groups one_group_optimizer). \<forall>ps. g ''params'' = Some ps \<longrightarrow>
                 (\<forall>a\<in>set ps.
                    fnum_le (exact_dtype a (- weight_clamp_value (clamp_callback 1)))
                      (exact_dtype a (weight_clamp_value (clamp_callback 1)))
                    \<longrightarrow> (\<forall>x\<in>set (params_data ?state' a).
                           x = NaN
                           \<or> (\<exists>v. x = Num v
                                 \<and> fnum_le (exact_dtype a (- weight_clamp_value (clamp_callback 1))) v
                                 \<and> fnum_le v (exact_dtype a (weight_clamp_value (clamp_callback 1)))))))
              \<and> (\<forall>a. (NaN \<in> set (params_data ?state' a)) = (NaN \<in> set (params_data weights_state a)))"
    by (rule t, simp, intro conjI h2 h3 h5 h6)
  from t' [THEN conjunct1, THEN bspec, OF g, THEN spec, THEN mp, of "[0]", THEN bspec, of 0,
      THEN mp, OF _ _ h7]
  have "\<forall>x\<in>set (params_data ?state' 0).
          x = NaN
          \<or> (\<exists>v. x = Num v
                \<and> fnum_le (exact_dtype 0 (- weight_clamp_value (clamp_callback 1))) v
                \<and> fnum_le v (exact_dtype 0 (weight_clamp_value (clamp_callback 1))))"
    by simp
  then have r: "in_range (Finite (- 1)) (Finite 1) (params_data ?state' 0)"
    by (simp add: in_range_def exact_dtype_def clamp_callback_def)
  have n0: "NaN \<in> set (params_data weights_state 0)"
    by (simp add: weights_state_def)
  from t' [THEN conjunct2, THEN spec, of 0] n0
  have n1: "NaN \<in> set (params_data ?state' 0)"
    by simp
  from h1 h2 h3 h6 h7 r n0 n1 show ?thesis
    by (intro conjI)
qed

text \<open>
  Three ways out of the interval \<open>[- weight_clamp_value, weight_clamp_value]\<close>, on a
  parameter holding \<open>0\<close>, \<open>5\<close> and NaN. With a negative \<^verbatim>\<open>weight_clamp_value\<close> the bounds are
  crossed: \<^verbatim>\<open>clamp_(min=1, max=-1)\<close> sets every number to \<open>-1\<close>, which is not above the
  lower bound \<open>1\<close>. With the default \<^verbatim>\<open>weight_clamp_value\<close> \<open>0.1\<close> and a float32 parameter
  the value \<open>5\<close> becomes the float32 number nearest to \<open>0.1\<close>, which is 13421773/134217728
  and above \<open>0.1\<close>. In both runs the NaN is still there afterwards.
\<close>

theorem weight_clamping_interval_counterexample:
  "WeightClampingOptimizerCallback_on_batch_end exact_dtype super_done get_one_group_optimizer
     (clamp_callback (- 1)) weights_state
     = Inr (clamp_callback (- 1),
         weights_state\<lparr>params_data :=
           (\<lambda>_. [])(0 := [Num (Finite (- 1)), Num (Finite (- 1)), NaN])\<rparr>)
   \<and> \<not> (- weight_clamp_value (clamp_callback (- 1)) \<le> (- 1 :: real))
   \<and> WeightClampingOptimizerCallback_on_batch_end float32_tenth super_done
       get_one_group_optimizer (clamp_callback (1 / 10)) weights_state
     = Inr (clamp_callback (1 / 10),
         weights_state\<lparr>params_data :=
           (\<lambda>_. [])(0 := [Num (Finite 0), Num (Finite (13421773 / 134217728)), NaN])\<rparr>)
   \<and> \<not> (13421773 / 134217728 \<le> weight_clamp_value (clamp_callback (1 / 10)))
   \<and> need_backward weights_state
   \<and> [''params'' \<mapsto> [0 :: nat]] \<in> set (param_groups one_group_optimizer)"
proof -
  have "WeightClampingOptimizerCallback_on_batch_end exact_dtype super_done
     get_one_group_optimizer (clamp_callback (- 1)) weights_state
     = Inr (clamp_callback (- 1),
         weights_state\<lparr>params_data :=
           (\<lambda>_. [])(0 := [Num (Finite (- 1)), Num (Finite (- 1)), NaN])\<rparr>)"
    by (simp add: WeightClampingOptimizerCallback_on_batch_end_def super_done_def
        get_one_group_optimizer_def one_group_optimizer_def clamp_callback_def weights_state_def
        empty_state_def clamp_param_def exact_dtype_def fnum_min_def fnum_max_def)
  moreover have "\<not> (- weight_clamp_value (clamp_callback (- 1)) \<le> (- 1 :: real))"
    by (simp add: clamp_callback_def)
  moreover have "WeightClampingOptimizerCallback_on_batch_end float32_tenth super_done
       get_one_group_optimizer (clamp_callback (1 / 10)) weights_state
     = Inr (clamp_callback (1 / 10),
         weights_state\<lparr>params_data :=
           (\<lambda>_. [])(0 := [Num (Finite 0), Num (Finite (13421773 / 134217728)), NaN])\<rparr>)"
    by (simp add: WeightClampingOptimizerCallback_on_batch_end_def super_done_def
        get_one_group_optimizer_def one_group_optimizer_def clamp_callback_def weights_state_def
        empty_state_def clamp_param_def float32_tenth_def fnum_min_def fnum_max_def)
  moreover have "\<not> (13421773 / 134217728 \<le> weight_clamp_value (clamp_callback (1 / 10)))"
    by (simp add: clamp_callback_def)
  moreover have "need_backward weights_state"
    by (simp add: weights_state_def empty_state_def)
  moreover have "[''params'' \<mapsto> [0 :: nat]] \<in> set (param_groups one_group_optimizer)"
    by (simp add: one_group_optimizer_def)
  ultimately show ?thesis
    by (intro conjI)
qed

section \<open>One-hot encoding\<close>

lemma cell_index_eq:
  fixes n :: nat
  assumes "a < n" "j < n"
  shows "(r * n + a = i * n + j) = (r = i \<and> a = j)"
proof
  assume eq: "r * n + a = i * n + j"
  from assms have "(r * n + a) div n = r" "(i * n + j) div n = i" by simp_all
  with eq have "r = i" by simp
  with eq show "r = i \<and> a = j" by simp
qed simp

lemma cell_index_less:
  fixes n :: nat
  assumes "i < b" "j < n"
  shows "i * n + j < b * n"
proof -
  from assms(2) have "i * n + j < Suc i * n" by simp
  also from assms(1) have "Suc i * n \<le> b * n"
    by (intro mult_le_mono1) simp
  finally show ?thesis .
qed

lemma put_ones_cells:
  assumes "\<forall>(r, c) \<in> set ps. 0 \<le> c \<and> c < int n"
  shows "\<exists>ys. put_ones n ps xs = Inr ys \<and> length ys = length xs
           \<and> (\<forall>i j. j < n \<longrightarrow> i * n + j < length xs \<longrightarrow>
                 ys ! (i * n + j) = (if (i, int j) \<in> set ps then 1 else xs ! (i * n + j)))"
  using assms
proof (induction ps arbitrary: xs)
  case Nil
  then show ?case by simp
next
  case (Cons p ps)
  obtain r c where p: "p = (r, c)" by (cases p)
  from Cons.prems p have c: "0 \<le> c" "c < int n"
    and rest: "\<forall>(r, c) \<in> set ps. 0 \<le> c \<and> c < int n" by auto
  let ?xs = "xs[r * n + nat c := 1]"
  from Cons.IH [OF rest, of ?xs] obtain ys where
    ys: "put_ones n ps ?xs = Inr ys" "length ys = length xs"
    "\<And>i j. j < n \<Longrightarrow> i * n + j < length xs \<Longrightarrow>
       ys ! (i * n + j) = (if (i, int j) \<in> set ps then 1 else ?xs ! (i * n + j))"
    by auto
  have run: "put_ones n (p # ps) xs = Inr ys"
    using p c ys(1) by simp
  have cell: "ys ! (i * n + j) = (if (i, int j) \<in> set (p # ps) then 1 else xs ! (i * n + j))"
    if "j < n" "i * n + j < length xs" for i j
  proof -
    from c have nc: "nat c < n" by simp
    have same: "(r * n + nat c = i * n + j) = (r = i \<and> nat c = j)"
      using nc that(1) by (rule cell_index_eq)
    have "((i, int j) = p) = (r = i \<and> nat c = j)"
      using p c by auto
    with same ys(3) [OF that] that(2) show ?thesis
      by (auto simp add: nth_list_update)
  qed
  from run ys(2) cell show ?case by blast
qed

lemma in_zip_upt:
  assumes "length cols = b"
  shows "((i, x) \<in> set (zip [0..<b] cols)) = (i < b \<and> cols ! i = x)"
proof
  assume "(i, x) \<in> set (zip [0..<b] cols)"
  then obtain k where "[0..<b] ! k = i" "cols ! k = x" "k < length [0..<b]" "k < length cols"
    by (auto simp add: in_set_zip)
  then show "i < b \<and> cols ! i = x" by auto
next
  assume "i < b \<and> cols ! i = x"
  with assms have "[0..<b] ! i = i \<and> cols ! i = x \<and> i < length [0..<b] \<and> i < length cols"
    by simp
  then show "(i, x) \<in> set (zip [0..<b] cols)"
    unfolding in_set_zip by (intro exI [of _ i]) simp
qed

lemma one_hot_cells:
  assumes "length cols = b" and "\<forall>x \<in> set cols. 0 \<le> x \<and> x < int n"
  shows "\<exists>ys. put_ones n (zip [0..<b] cols) (replicate (b * n) 0) = Inr ys
           \<and> length ys = b * n
           \<and> (\<forall>i j. i < b \<longrightarrow> j < n \<longrightarrow>
                 ys ! (i * n + j) = (if cols ! i = int j then 1 else 0))"
proof -
  have "\<forall>(r, c) \<in> set (zip [0..<b] cols). 0 \<le> c \<and> c < int n"
    using assms(2) by (auto dest: set_zip_rightD)
  from put_ones_cells [OF this, of "replicate (b * n) 0"] obtain ys where
    ys: "put_ones n (zip [0..<b] cols) (replicate (b * n) 0) = Inr ys" "length ys = b * n"
    "\<And>i j. j < n \<Longrightarrow> i * n + j < b * n \<Longrightarrow>
       ys ! (i * n + j) = (if (i, int j) \<in> set (zip [0..<b] cols) then 1
                            else replicate (b * n) 0 ! (i * n + j))"
    by auto
  have "ys ! (i * n + j) = (if cols ! i = int j then 1 else 0)" if "i < b" "j < n" for i j
    using ys(3) [OF that(2) cell_index_less [OF that]] that cell_index_less [OF that]
    by (simp add: in_zip_upt [OF assms(1)])
  with ys(1,2) show ?thesis by blast
qed

text \<open>
  C3, as amended. Let the input hold a data tensor with first dimension \<open>batch_size\<close>
  and a target tensor, and not yet hold \<^verbatim>\<open>one_hot_target_key\<close>. If the target is a
  one-dimensional integer tensor of length \<open>batch_size\<close> with every entry in
  \<open>[0, n_classes)\<close>, then \<^verbatim>\<open>on_batch_start\<close> returns and has stored under
  \<^verbatim>\<open>one_hot_target_key\<close>, changing nothing else, a float tensor of shape
  \<open>(batch_size, n_classes)\<close> whose entry \<open>(i, j)\<close> is 1 if \<open>targets[i] = j\<close> and 0
  otherwise. If the target has more than one dimension, \<^verbatim>\<open>on_batch_start\<close> raises
  \<^verbatim>\<open>NotImplementedError\<close>.
\<close>

theorem one_hot_transform:
  assumes "input state (data_key self) = Some data"
    and "tensor_shape data = batch_size # rest"
    and "input state (target_key self) = Some targets"
    and "input state (one_hot_target_key self) = None"
  shows "(\<forall>t. targets = LongTensor t \<and> shape t = [batch_size]
              \<and> length (elems t) = batch_size
              \<and> (\<forall>x \<in> set (elems t). 0 \<le> x \<and> x < int (n_classes self))
           \<longrightarrow> (\<exists>state' z.
                  OneHotTransformCallback_on_batch_start self state = Inr state'
                \<and> state' = state\<lparr>input :=
                     (input state)(one_hot_target_key self \<mapsto> FloatTensor z)\<rparr>
                \<and> shape z = [batch_size, n_classes self]
                \<and> length (elems z) = batch_size * n_classes self
                \<and> (\<forall>i j. i < batch_size \<longrightarrow> j < n_classes self \<longrightarrow>
                      elems z ! (i * n_classes self + j)
                      = (if elems t ! i = int j then 1 else 0))))
       \<and> (ndim targets > 1
           \<longrightarrow> OneHotTransformCallback_on_batch_start self state = Inl NotImplementedError)"
proof (intro conjI allI impI)
  fix t
  assume t: "targets = LongTensor t \<and> shape t = [batch_size]
              \<and> length (elems t) = batch_size
              \<and> (\<forall>x \<in> set (elems t). 0 \<le> x \<and> x < int (n_classes self))"
  from one_hot_cells [of "elems t" batch_size "n_classes self"] t obtain ys where
    ys: "put_ones (n_classes self) (zip [0..<batch_size] (elems t))
           (replicate (batch_size * n_classes self) 0) = Inr ys"
    "length ys = batch_size * n_classes self"
    "\<forall>i j. i < batch_size \<longrightarrow> j < n_classes self \<longrightarrow>
       ys ! (i * n_classes self + j) = (if elems t ! i = int j then 1 else 0)"
    by blast
  let ?z = "\<lparr>shape = [batch_size, n_classes self], elems = ys\<rparr> :: real tensor"
  have "OneHotTransformCallback_on_batch_start self state
        = Inr (state\<lparr>input := (input state)(one_hot_target_key self \<mapsto> FloatTensor ?z)\<rparr>)"
    using assms t ys(1)
    by (simp add: OneHotTransformCallback_on_batch_start_def get_batch_size_def size0_def
        ndim_def index_put_ones_def broadcast_index_def torch_zeros_def)
  with ys(2,3) show "\<exists>state' z.
                  OneHotTransformCallback_on_batch_start self state = Inr state'
                \<and> state' = state\<lparr>input :=
                     (input state)(one_hot_target_key self \<mapsto> FloatTensor z)\<rparr>
                \<and> shape z = [batch_size, n_classes self]
                \<and> length (elems z) = batch_size * n_classes self
                \<and> (\<forall>i j. i < batch_size \<longrightarrow> j < n_classes self \<longrightarrow>
                      elems z ! (i * n_classes self + j)
                      = (if elems t ! i = int j then 1 else 0))"
    by (intro exI [of _ "state\<lparr>input := (input state)(one_hot_target_key self \<mapsto> FloatTensor ?z)\<rparr>"]
        exI [of _ ?z]) simp
next
  assume "ndim targets > 1"
  with assms show "OneHotTransformCallback_on_batch_start self state = Inl NotImplementedError"
    by (simp add: OneHotTransformCallback_on_batch_start_def get_batch_size_def size0_def)
qed

theorem one_hot_transform_witness:
  "input one_hot_state (data_key one_hot_callback) = Some pair_batch
   \<and> tensor_shape pair_batch = [2, 2]
   \<and> input one_hot_state (target_key one_hot_callback) = Some (LongTensor class_targets)
   \<and> input one_hot_state (one_hot_target_key one_hot_callback) = None
   \<and> (\<exists>state' z.
         OneHotTransformCallback_on_batch_start one_hot_callback one_hot_state = Inr state'
       \<and> input state' ''one_hot_target'' = Some (FloatTensor z)
       \<and> shape z = [2, 3]
       \<and> elems z ! 0 = 0 \<and> elems z ! 1 = 0 \<and> elems z ! 2 = 1
       \<and> elems z ! 3 = 1 \<and> elems z ! 4 = 0 \<and> elems z ! 5 = 0)
   \<and> 1 < ndim pair_batch
   \<and> OneHotTransformCallback_on_batch_start one_hot_callback matrix_targets_state
       = Inl NotImplementedError"
proof -
  have h1: "input one_hot_state (data_key one_hot_callback) = Some pair_batch"
    by (simp add: one_hot_state_def one_hot_callback_def)
  have h2: "tensor_shape pair_batch = 2 # [2]"
    by (simp add: pair_batch_def)
  have h3: "input one_hot_state (target_key one_hot_callback) = Some (LongTensor class_targets)"
    by (simp add: one_hot_state_def one_hot_callback_def)
  have h4: "input one_hot_state (one_hot_target_key one_hot_callback) = None"
    by (simp add: one_hot_state_def one_hot_callback_def)
  have t: "LongTensor class_targets = LongTensor class_targets \<and> shape class_targets = [2]
      \<and> length (elems class_targets) = 2
      \<and> (\<forall>x \<in> set (elems class_targets). 0 \<le> x \<and> x < int (n_classes one_hot_callback))"
    by (simp add: class_targets_def one_hot_callback_def)
  from one_hot_transform [OF h1 h2 h3 h4] t obtain state' z where
    r: "OneHotTransformCallback_on_batch_start one_hot_callback one_hot_state = Inr state'"
    "state' = one_hot_state\<lparr>input :=
       (input one_hot_state)(one_hot_target_key one_hot_callback \<mapsto> FloatTensor z)\<rparr>"
    "shape z = [2, n_classes one_hot_callback]"
    "\<forall>i j. i < 2 \<longrightarrow> j < n_classes one_hot_callback \<longrightarrow>
       elems z ! (i * n_classes one_hot_callback + j)
       = (if elems class_targets ! i = int j then 1 else 0)"
    by blast
  have n: "n_classes one_hot_callback = 3" "one_hot_target_key one_hot_callback = ''one_hot_target''"
    by (simp_all add: one_hot_callback_def)
  from r(4) have cell: "elems z ! (i * 3 + j) = (if elems class_targets ! i = int j then 1 else 0)"
    if "i < 2" "j < 3" for i j
    using that n by simp
  have cells: "elems z ! 0 = 0 \<and> elems z ! 1 = 0 \<and> elems z ! 2 = 1
       \<and> elems z ! 3 = 1 \<and> elems z ! 4 = 0 \<and> elems z ! 5 = 0"
    using cell [of 0 0] cell [of 0 1] cell [of 0 2] cell [of 1 0] cell [of 1 1] cell [of 1 2]
    by (simp add: class_targets_def numeral_2_eq_2)
  have first: "\<exists>state' z.
         OneHotTransformCallback_on_batch_start one_hot_callback one_hot_state = Inr state'
       \<and> input state' ''one_hot_target'' = Some (FloatTensor z)
       \<and> shape z = [2, 3]
       \<and> elems z ! 0 = 0 \<and> elems z ! 1 = 0 \<and> elems z ! 2 = 1
       \<and> elems z ! 3 = 1 \<and> elems z ! 4 = 0 \<and> elems z ! 5 = 0"
    using r(1,2,3) n cells by (intro exI [of _ state'] exI [of _ z]) simp
  have g1: "input matrix_targets_state (data_key one_hot_callback) = Some pair_batch"
    by (simp add: matrix_targets_state_def one_hot_callback_def)
  have g3: "input matrix_targets_state (target_key one_hot_callback) = Some pair_batch"
    by (simp add: matrix_targets_state_def one_hot_callback_def)
  have g4: "input matrix_targets_state (one_hot_target_key one_hot_callback) = None"
    by (simp add: matrix_targets_state_def one_hot_callback_def)
  have nd: "1 < ndim pair_batch"
    by (simp add: ndim_def pair_batch_def)
  from one_hot_transform [OF g1 h2 g3 g4] nd
  have second: "OneHotTransformCallback_on_batch_start one_hot_callback matrix_targets_state
       = Inl NotImplementedError"
    by blast
  from h1 h2 h3 h4 first nd second show ?thesis by simp
qed

text \<open>
  When \<^verbatim>\<open>one_hot_target_key\<close> is already in the input, the assertions that come first
  stop \<^verbatim>\<open>on_batch_start\<close>: nothing is stored for well-formed targets, and targets with
  two dimensions do not get as far as \<^verbatim>\<open>NotImplementedError\<close>.
\<close>

theorem one_hot_key_present_counterexample:
  "input one_hot_present_state (data_key one_hot_callback) = Some pair_batch
   \<and> tensor_shape pair_batch = [2, 2]
   \<and> input one_hot_present_state (target_key one_hot_callback) = Some (LongTensor class_targets)
   \<and> class_targets = \<lparr>shape = [2], elems = [2, 0]\<rparr>
   \<and> n_classes one_hot_callback = 3
   \<and> OneHotTransformCallback_on_batch_start one_hot_callback one_hot_present_state
       = Inl AssertionError
   \<and> input matrix_targets_present_state (target_key one_hot_callback) = Some pair_batch
   \<and> 1 < ndim pair_batch
   \<and> OneHotTransformCallback_on_batch_start one_hot_callback matrix_targets_present_state
       = Inl AssertionError"
  by (simp add: OneHotTransformCallback_on_batch_start_def get_batch_size_def size0_def
      one_hot_present_state_def matrix_targets_present_state_def one_hot_callback_def
      empty_state_def pair_batch_def class_targets_def ndim_def)

section \<open>Validation of the image keys\<close>

text \<open>
  C4, as amended. In all three examples the constructor normalizes \<^verbatim>\<open>None\<close> to the
  empty list, a single string to a one-element list and a tuple or list of strings to
  that list, and when it returns the callback holds the two normalized lists and a
  positive \<^verbatim>\<open>batch_frequency\<close>, the argument converted by \<^verbatim>\<open>int\<close>. It raises
  \<^verbatim>\<open>ValueError\<close> (unexpected format) for an \<^verbatim>\<open>input_keys\<close> that is not \<^verbatim>\<open>None\<close>, a
  string, a tuple or a list, and for such an \<^verbatim>\<open>output_keys\<close> whenever \<^verbatim>\<open>input_keys\<close>
  itself has been normalized, and for no other arguments. It raises \<^verbatim>\<open>ValueError\<close>
  (useless visualizer) exactly when both normalized lists are empty. When the lists are
  normalized and not both empty and the converted \<^verbatim>\<open>batch_frequency\<close> is not positive,
  it raises \<^verbatim>\<open>AssertionError\<close>.
\<close>

theorem visualization_init_keys:
  assumes "init = VisualizationCallback_init \<or> init = VisualizationCallback_init_autoencoders"
  shows "normalize_keys name KNone = Inr []
       \<and> normalize_keys name (KStr s) = Inr [s]
       \<and> normalize_keys name (KTuple (map Str ks)) = Inr ks
       \<and> normalize_keys name (KList (map Str ks)) = Inr ks
       \<and> (init ik ok bf ci mi nr dn = Inr cb \<longrightarrow>
            normalize_keys ''input_keys'' ik = Inr (input_keys cb)
          \<and> normalize_keys ''output_keys'' ok = Inr (output_keys cb)
          \<and> batch_frequency cb = py_int bf \<and> 0 < batch_frequency cb)
       \<and> (ik = KOther \<longrightarrow>
            init ik ok bf ci mi nr dn = Inl (ValueError (UnexpectedFormat ''input_keys'')))
       \<and> (ok = KOther \<and> (\<exists>iks. normalize_keys ''input_keys'' ik = Inr iks) \<longrightarrow>
            init ik ok bf ci mi nr dn = Inl (ValueError (UnexpectedFormat ''output_keys'')))
       \<and> (init ik ok bf ci mi nr dn = Inl (ValueError (UnexpectedFormat a)) \<longrightarrow>
            (a = ''input_keys'' \<and> ik = KOther) \<or> (a = ''output_keys'' \<and> ok = KOther))
       \<and> ((init ik ok bf ci mi nr dn = Inl (ValueError UselessVisualizer))
          = (normalize_keys ''input_keys'' ik = Inr []
             \<and> normalize_keys ''output_keys'' ok = Inr []))
       \<and> ((\<exists>iks oks. normalize_keys ''input_keys'' ik = Inr iks
                     \<and> normalize_keys ''output_keys'' ok = Inr oks \<and> iks @ oks \<noteq> [])
          \<and> \<not> 0 < py_int bf \<longrightarrow>
            init ik ok bf ci mi nr dn = Inl AssertionError)"
proof -
  from assms obtain select where init: "init = VisualizationCallback_init_with select"
    and sel: "\<And>d a. select d \<noteq> Inl (ValueError (UnexpectedFormat a))"
      "\<And>d. select d \<noteq> Inl (ValueError UselessVisualizer)"
    using select_denorm_not_keys_error
    by (auto simp add: VisualizationCallback_init_def VisualizationCallback_init_autoencoders_def)
  have r: "normalize_keys ''input_keys'' ik = Inr (input_keys cb)
          \<and> normalize_keys ''output_keys'' ok = Inr (output_keys cb)
          \<and> batch_frequency cb = py_int bf \<and> 0 < batch_frequency cb"
    if "init ik ok bf ci mi nr dn = Inr cb"
    using init_with_result [of select ik ok bf ci mi nr dn cb] that init by simp
  have i: "init ik ok bf ci mi nr dn = Inl (ValueError (UnexpectedFormat ''input_keys''))"
    if "ik = KOther"
    using that init by (simp add: init_with_input_other)
  have out: "init ik ok bf ci mi nr dn = Inl (ValueError (UnexpectedFormat ''output_keys''))"
    if "ok = KOther" "normalize_keys ''input_keys'' ik = Inr iks" for iks
    using that init by (simp add: init_with_output_other)
  have f: "(a = ''input_keys'' \<and> ik = KOther) \<or> (a = ''output_keys'' \<and> ok = KOther)"
    if "init ik ok bf ci mi nr dn = Inl (ValueError (UnexpectedFormat a))"
    using init_with_format_error [of select ik ok bf ci mi nr dn a] sel(1) that init by simp
  have u: "(init ik ok bf ci mi nr dn = Inl (ValueError UselessVisualizer))
          = (normalize_keys ''input_keys'' ik = Inr []
             \<and> normalize_keys ''output_keys'' ok = Inr [])"
    using init_with_useless [of select ik ok bf ci mi nr dn] sel(2) init by simp
  have b: "init ik ok bf ci mi nr dn = Inl AssertionError"
    if "normalize_keys ''input_keys'' ik = Inr iks" "normalize_keys ''output_keys'' ok = Inr oks"
      "iks @ oks \<noteq> []" "\<not> 0 < py_int bf" for iks oks
    using init_with_frequency [OF that] init by simp
  have n: "normalize_keys name KNone = Inr []" "normalize_keys name (KStr s) = Inr [s]"
    by simp_all
  from n normalize_keys_strings [of name ks] r i out f u b show ?thesis
    by blast
qed

text \<open>
  An \<^verbatim>\<open>output_keys\<close> that is neither \<^verbatim>\<open>None\<close>, a string, a tuple nor a list does not
  raise \<^verbatim>\<open>ValueError\<close> when \<^verbatim>\<open>input_keys\<close> is a list with an element that is not a
  string: the assertion on \<^verbatim>\<open>input_keys\<close> fails first.
\<close>

theorem visualization_init_assert_first_counterexample:
  "VisualizationCallback_init (KList [NonStr]) KOther (PyInt 25) True 20 1 (DStr ''default'')
     = Inl AssertionError
   \<and> VisualizationCallback_init_autoencoders (KList [NonStr]) KOther (PyInt 25) True 20 1
       (DStr ''default'')
     = Inl AssertionError"
  by (simp add: VisualizationCallback_init_def VisualizationCallback_init_autoencoders_def
      VisualizationCallback_init_with_def)

theorem visualization_init_keys_witness:
  "VisualizationCallback_init (KStr ''image'') KNone (PyInt 25) True 20 1 (DStr ''default'')
     = Inr (image_callback HalfPlusHalf)
   \<and> input_keys (image_callback HalfPlusHalf) = [''image'']
   \<and> output_keys (image_callback HalfPlusHalf) = []
   \<and> batch_frequency (image_callback HalfPlusHalf) = 25
   \<and> VisualizationCallback_init KOther KNone (PyInt 25) True 20 1 (DStr ''default'')
     = Inl (ValueError (UnexpectedFormat ''input_keys''))
   \<and> VisualizationCallback_init (KList [Str ''image'']) KOther (PyInt 25) True 20 1
       (DStr ''default'')
     = Inl (ValueError (UnexpectedFormat ''output_keys''))
   \<and> VisualizationCallback_init KNone (KTuple []) (PyInt 25) True 20 1 (DStr ''default'')
     = Inl (ValueError UselessVisualizer)
   \<and> VisualizationCallback_init (KStr ''image'') KNone (PyFloat (1 / 2)) True 20 1
       (DStr ''default'')
     = Inl AssertionError"
proof -
  note t = visualization_init_keys [OF disjI1 [OF refl]]
  note t4 = t [THEN conjunct2, THEN conjunct2, THEN conjunct2, THEN conjunct2]
  note result = t4 [THEN conjunct1, THEN mp]
  note input_other = t4 [THEN conjunct2, THEN conjunct1, THEN mp]
  note output_other = t4 [THEN conjunct2, THEN conjunct2, THEN conjunct1, THEN mp]
  note useless = t4 [THEN conjunct2, THEN conjunct2, THEN conjunct2, THEN conjunct2,
      THEN conjunct1, THEN iffD2]
  note frequency = t4 [THEN conjunct2, THEN conjunct2, THEN conjunct2, THEN conjunct2,
      THEN conjunct2, THEN mp]
  from result [OF init_image_default]
  have a: "batch_frequency (image_callback HalfPlusHalf) = py_int (PyInt 25)"
    by (elim conjE)
  have b: "VisualizationCallback_init KOther KNone (PyInt 25) True 20 1 (DStr ''default'')
     = Inl (ValueError (UnexpectedFormat ''input_keys''))"
    by (rule input_other) simp
  have c: "VisualizationCallback_init (KList [Str ''image'']) KOther (PyInt 25) True 20 1
       (DStr ''default'')
     = Inl (ValueError (UnexpectedFormat ''output_keys''))"
    by (rule output_other) simp
  have d: "VisualizationCallback_init KNone (KTuple []) (PyInt 25) True 20 1 (DStr ''default'')
     = Inl (ValueError UselessVisualizer)"
    by (rule useless) simp
  have e: "VisualizationCallback_init (KStr ''image'') KNone (PyFloat (1 / 2)) True 20 1
       (DStr ''default'')
     = Inl AssertionError"
    by (rule frequency) simp
  have f: "input_keys (image_callback HalfPlusHalf) = [''image'']"
    "output_keys (image_callback HalfPlusHalf) = []"
    by (simp_all add: image_callback_def)
  from a b c d e f init_image_default show ?thesis
    by simp
qed

section \<open>Noise injection\<close>

text \<open>
  C5. If the input holds a batch under the data key whose first dimension is
  \<open>batch_size\<close> and does not yet hold the noise key, \<^verbatim>\<open>on_batch_start\<close> returns
  normally, the noise key then holds a float tensor whose shape is \<open>batch_size\<close>
  followed by the constructor argument as a tuple: \<open>[n]\<close> for a lone integer \<open>n\<close>, and
  the elements themselves for a tuple or a list; every other entry of the input, and
  every other field of the state, is as before.
\<close>

theorem add_batch_noise_shape:
  assumes "self = AddBatchNoiseCallback_init arg dk nk"
    and "input state dk = Some t"
    and "tensor_shape t = batch_size # rest"
    and "input state nk = None"
  shows "\<exists>state' z.
           AddBatchNoiseCallback_on_batch_start rng self state = Inr state'
         \<and> input state' nk = Some (FloatTensor z)
         \<and> shape z = batch_size # (case arg of
                                     ShapeInt n \<Rightarrow> [n]
                                   | ShapeTuple ns \<Rightarrow> ns
                                   | ShapeList ns \<Rightarrow> ns)
         \<and> length (elems z) = prod_list (shape z)
         \<and> (\<forall>k. k \<noteq> nk \<longrightarrow> input state' k = input state k)
         \<and> state' = state\<lparr>input := input state'\<rparr>"
  using assms
  by (cases arg)
    (simp_all add: AddBatchNoiseCallback_on_batch_start_def AddBatchNoiseCallback_init_def
      get_batch_size_def size0_def randn_def Let_def)

theorem add_batch_noise_shape_witness:
  "input noise_state ''data'' = Some pair_batch
   \<and> tensor_shape pair_batch = [2, 2]
   \<and> input noise_state ''noise'' = None
   \<and> (\<exists>state' z.
         AddBatchNoiseCallback_on_batch_start (\<lambda>_. 0)
           (AddBatchNoiseCallback_init (ShapeInt 3) ''data'' ''noise'') noise_state = Inr state'
       \<and> input state' ''noise'' = Some (FloatTensor z)
       \<and> shape z = [2, 3]
       \<and> length (elems z) = 6
       \<and> input state' ''data'' = Some pair_batch)
   \<and> (\<exists>state' z.
         AddBatchNoiseCallback_on_batch_start (\<lambda>_. 0)
           (AddBatchNoiseCallback_init (ShapeTuple [3, 4]) ''data'' ''noise'') noise_state
           = Inr state'
       \<and> input state' ''noise'' = Some (FloatTensor z)
       \<and> shape z = [2, 3, 4]
       \<and> length (elems z) = 24
       \<and> input state' ''data'' = Some pair_batch)
   \<and> (\<exists>state' z.
         AddBatchNoiseCallback_on_batch_start (\<lambda>_. 0)
           (AddBatchNoiseCallback_init (ShapeList [5]) ''data'' ''noise'') noise_state
           = Inr state'
       \<and> input state' ''noise'' = Some (FloatTensor z)
       \<and> shape z = [2, 5]
       \<and> length (elems z) = 10
       \<and> input state' ''data'' = Some pair_batch)"
proof -
  have h2: "input noise_state ''data'' = Some pair_batch"
    by (simp add: noise_state_def)
  have h3: "tensor_shape pair_batch = 2 # [2]"
    by (simp add: pair_batch_def)
  have h4: "input noise_state ''noise'' = None"
    by (simp add: noise_state_def)
  from add_batch_noise_shape [OF refl h2 h3 h4, where arg = "ShapeInt 3" and rng = "\<lambda>_. 0"] h2
  have a: "\<exists>state' z.
         AddBatchNoiseCallback_on_batch_start (\<lambda>_. 0)
           (AddBatchNoiseCallback_init (ShapeInt 3) ''data'' ''noise'') noise_state = Inr state'
       \<and> input state' ''noise'' = Some (FloatTensor z)
       \<and> shape z = [2, 3]
       \<and> length (elems z) = 6
       \<and> input state' ''data'' = Some pair_batch"
    by auto
  from add_batch_noise_shape [OF refl h2 h3 h4, where arg = "ShapeTuple [3, 4]"
      and rng = "\<lambda>_. 0"] h2
  have b: "\<exists>state' z.
         AddBatchNoiseCallback_on_batch_start (\<lambda>_. 0)
           (AddBatchNoiseCallback_init (ShapeTuple [3, 4]) ''data'' ''noise'') noise_state
           = Inr state'
       \<and> input state' ''noise'' = Some (FloatTensor z)
       \<and> shape z = [2, 3, 4]
       \<and> length (elems z) = 24
       \<and> input state' ''data'' = Some pair_batch"
    by auto
  from add_batch_noise_shape [OF refl h2 h3 h4, where arg = "ShapeList [5]"
      and rng = "\<lambda>_. 0"] h2
  have c: "\<exists>state' z.
         AddBatchNoiseCallback_on_batch_start (\<lambda>_. 0)
           (AddBatchNoiseCallback_init (ShapeList [5]) ''data'' ''noise'') noise_state
           = Inr state'
       \<and> input state' ''noise'' = Some (FloatTensor z)
       \<and> shape z = [2, 5]
       \<and> length (elems z) = 10
       \<and> input state' ''data'' = Some pair_batch"
    by auto
  from h2 h3 h4 a b c show ?thesis
    by simp
qed

section \<open>Denormalization\<close>

text \<open>
  C6, as amended. Let the other arguments pass the constructor's checks. In mnist\_gans
  and mnist\_advanced\_gans, a string \<^verbatim>\<open>denorm\<close> whose lower-case form is
  \<^verbatim>\<open>"default"\<close> selects \<open>x \<mapsto> x / 2 + 1 / 2\<close>, one whose lower-case form is
  \<^verbatim>\<open>"none"\<close> selects the identity, and any other string raises \<^verbatim>\<open>ValueError\<close>. In
  autoencoders, \<^verbatim>\<open>"default"\<close> selects \<open>x \<mapsto> x / 2 + 1 / 2\<close>, \<^verbatim>\<open>None\<close> selects the
  identity, and any other value raises \<^verbatim>\<open>ValueError\<close>. The function
  \<open>x \<mapsto> x / 2 + 1 / 2\<close> maps the interval from \<open>-1\<close> to \<open>1\<close> into the interval from
  \<open>0\<close> to \<open>1\<close>, and is applied to a tensor element by element.
\<close>

theorem denorm_selection:
  assumes "normalize_keys ''input_keys'' ik = Inr iks"
    and "normalize_keys ''output_keys'' ok = Inr oks"
    and "iks @ oks \<noteq> []"
    and "0 < py_int bf"
    and "cb = (\<lambda>d. \<lparr>input_keys = iks, output_keys = oks, batch_frequency = py_int bf,
                   concat_images = ci, max_images = mi, denorm = d, n_row = nr,
                   loader_batch_count = 0, loader_visualized_in_current_epoch = False\<rparr>)"
  shows "(lower s = ''default'' \<longrightarrow>
            VisualizationCallback_init ik ok bf ci mi nr (DStr s) = Inr (cb HalfPlusHalf))
       \<and> (lower s = ''none'' \<longrightarrow>
            VisualizationCallback_init ik ok bf ci mi nr (DStr s) = Inr (cb Identity))
       \<and> (lower s \<noteq> ''default'' \<and> lower s \<noteq> ''none'' \<longrightarrow>
            VisualizationCallback_init ik ok bf ci mi nr (DStr s) = Inl (ValueError UnknownDenorm))
       \<and> VisualizationCallback_init_autoencoders ik ok bf ci mi nr (DStr ''default'')
           = Inr (cb HalfPlusHalf)
       \<and> VisualizationCallback_init_autoencoders ik ok bf ci mi nr DNone = Inr (cb Identity)
       \<and> (dn \<noteq> DStr ''default'' \<and> dn \<noteq> DNone \<longrightarrow>
            VisualizationCallback_init_autoencoders ik ok bf ci mi nr dn
            = Inl (ValueError UnknownDenorm))
       \<and> denorm_number HalfPlusHalf x = x / 2 + 1 / 2
       \<and> (- 1 \<le> x \<and> x \<le> 1 \<longrightarrow>
            0 \<le> denorm_number HalfPlusHalf x \<and> denorm_number HalfPlusHalf x \<le> 1)
       \<and> denorm_number Identity x = x
       \<and> denorm_tensor HalfPlusHalf (FloatTensor t)
           = FloatTensor \<lparr>shape = shape t, elems = map (\<lambda>x. x / 2 + 1 / 2) (elems t)\<rparr>
       \<and> denorm_tensor Identity v = v"
proof -
  note g = init_with_denorm [OF assms(1-4), of select_denorm ci mi nr,
      folded VisualizationCallback_init_def]
  note a = init_with_denorm [OF assms(1-4), of select_denorm_autoencoders ci mi nr,
      folded VisualizationCallback_init_autoencoders_def]
  have ae: "VisualizationCallback_init_autoencoders ik ok bf ci mi nr dn
            = Inl (ValueError UnknownDenorm)" if "dn \<noteq> DStr ''default''" "dn \<noteq> DNone"
    using that by (cases dn) (simp_all add: a)
  have "lower ''default'' \<noteq> ''none''"
    by (simp add: lower_default)
  with ae show ?thesis
    by (intro conjI impI) (simp_all add: g a assms(5))
qed

theorem denorm_selection_witness:
  "normalize_keys ''input_keys'' (KStr ''image'') = Inr [''image'']
   \<and> normalize_keys ''output_keys'' KNone = Inr []
   \<and> 0 < py_int (PyInt 25)
   \<and> VisualizationCallback_init (KStr ''image'') KNone (PyInt 25) True 20 1 (DStr ''default'')
       = Inr (image_callback HalfPlusHalf)
   \<and> VisualizationCallback_init (KStr ''image'') KNone (PyInt 25) True 20 1 (DStr ''none'')
       = Inr (image_callback Identity)
   \<and> VisualizationCallback_init (KStr ''image'') KNone (PyInt 25) True 20 1 (DStr ''linear'')
       = Inl (ValueError UnknownDenorm)
   \<and> VisualizationCallback_init_autoencoders (KStr ''image'') KNone (PyInt 25) True 20 1
         (DStr ''default'')
       = Inr (image_callback HalfPlusHalf)
   \<and> VisualizationCallback_init_autoencoders (KStr ''image'') KNone (PyInt 25) True 20 1 DNone
       = Inr (image_callback Identity)
   \<and> VisualizationCallback_init_autoencoders (KStr ''image'') KNone (PyInt 25) True 20 1
         (DStr ''none'')
       = Inl (ValueError UnknownDenorm)
   \<and> denorm_number HalfPlusHalf (- 1) = 0
   \<and> denorm_number HalfPlusHalf 1 = 1"
proof -
  have h1: "normalize_keys ''input_keys'' (KStr ''image'') = Inr [''image'']" by simp
  have h2: "normalize_keys ''output_keys'' KNone = Inr []" by simp
  have h3: "[''image''] @ [] \<noteq> []" by simp
  have h4: "0 < py_int (PyInt 25)" by simp
  note t = denorm_selection [OF h1 h2 h3 h4 refl, where ci = True and mi = 20 and nr = 1]
  note default = t [THEN conjunct1, THEN mp]
  note none = t [THEN conjunct2, THEN conjunct1, THEN mp]
  note unknown = t [THEN conjunct2, THEN conjunct2, THEN conjunct1, THEN mp]
  note t3 = t [THEN conjunct2, THEN conjunct2, THEN conjunct2]
  note ae_default = t3 [THEN conjunct1]
  note ae_none = t3 [THEN conjunct2, THEN conjunct1]
  note ae_unknown = t3 [THEN conjunct2, THEN conjunct2, THEN conjunct1, THEN mp]
  note number = t3 [THEN conjunct2, THEN conjunct2, THEN conjunct2, THEN conjunct1]
  have a: "VisualizationCallback_init (KStr ''image'') KNone (PyInt 25) True 20 1
             (DStr ''default'') = Inr (image_callback HalfPlusHalf)"
    using default [OF lower_default] by (simp add: image_callback_def)
  have b: "VisualizationCallback_init (KStr ''image'') KNone (PyInt 25) True 20 1
             (DStr ''none'') = Inr (image_callback Identity)"
    using none [OF lower_none] by (simp add: image_callback_def)
  have c: "VisualizationCallback_init (KStr ''image'') KNone (PyInt 25) True 20 1
             (DStr ''linear'') = Inl (ValueError UnknownDenorm)"
    by (rule unknown) (simp add: lower_linear)
  have d: "VisualizationCallback_init_autoencoders (KStr ''image'') KNone (PyInt 25) True 20 1
         (DStr ''default'') = Inr (image_callback HalfPlusHalf)"
    using ae_default by (simp add: image_callback_def)
  have e: "VisualizationCallback_init_autoencoders (KStr ''image'') KNone (PyInt 25) True 20 1
         DNone = Inr (image_callback Identity)"
    using ae_none by (simp add: image_callback_def)
  have f: "VisualizationCallback_init_autoencoders (KStr ''image'') KNone (PyInt 25) True 20 1
         (DStr ''none'') = Inl (ValueError UnknownDenorm)"
    by (rule ae_unknown) simp
  have g: "denorm_number HalfPlusHalf (- 1) = 0" "denorm_number HalfPlusHalf 1 = 1"
    using number [of "- 1"] number [of 1] by simp_all
  from h1 h2 h4 a b c d e f g show ?thesis
    by simp
qed

text \<open>
  In mnist\_gans a value other than \<^verbatim>\<open>"default"\<close>, \<^verbatim>\<open>None\<close> and \<^verbatim>\<open>"none"\<close> need not
  raise: \<^verbatim>\<open>"DEFAULT"\<close> selects \<open>x \<mapsto> x / 2 + 1 / 2\<close>, since the argument is compared
  in lower case.
\<close>

theorem denorm_uppercase_counterexample:
  "''DEFAULT'' \<noteq> ''default''
   \<and> VisualizationCallback_init (KStr ''image'') KNone (PyInt 25) True 20 1 (DStr ''DEFAULT'')
       = Inr (image_callback HalfPlusHalf)"
  by (simp add: VisualizationCallback_init_def VisualizationCallback_init_with_def
      VisualizationCallback_reset_def image_callback_def lower_DEFAULT)

text \<open>
  In mnist\_gans \<^verbatim>\<open>denorm.lower()\<close> is evaluated before \<^verbatim>\<open>denorm is None\<close> is tested,
  so that \<^verbatim>\<open>None\<close> raises \<^verbatim>\<open>AttributeError\<close>; in autoencoders it selects the identity.
\<close>

lemma denorm_None_attribute_error:
  "VisualizationCallback_init (KStr ''image'') KNone (PyInt 25) True 20 1 DNone
     = Inl AttributeError
   \<and> VisualizationCallback_init_autoencoders (KStr ''image'') KNone (PyInt 25) True 20 1 DNone
     = Inr (image_callback Identity)"
  by (simp add: VisualizationCallback_init_def VisualizationCallback_init_autoencoders_def
      VisualizationCallback_init_with_def VisualizationCallback_reset_def image_callback_def)

section \<open>The TensorBoard logger\<close>

text \<open>
  C7, as amended. In mnist\_gans and mnist\_advanced\_gans,
  \<^verbatim>\<open>_get_tensorboard_logger\<close> raises \<^verbatim>\<open>RuntimeError\<close> if and only if the key
  \<^verbatim>\<open>"tensorboard"\<close> is absent from \<^verbatim>\<open>state.loggers\<close> or the loader's name is absent from
  that logger's \<^verbatim>\<open>loggers\<close>, it raises nothing else, and otherwise it returns the
  writer of the loader. \<^verbatim>\<open>save_visualizations\<close> looks the writer up first: without a
  writer it raises \<^verbatim>\<open>RuntimeError\<close>, and with one any error comes from the loop over
  the images. \<^verbatim>\<open>visualize\<close> raises that \<^verbatim>\<open>RuntimeError\<close> when
  \<^verbatim>\<open>compute_visualizations\<close> has returned; an error of \<^verbatim>\<open>compute_visualizations\<close>
  is raised instead of it.
\<close>

theorem tensorboard_logger_lookup:
  "(get_tensorboard_logger state = Inl RuntimeError)
     = (loggers state ''tensorboard'' = None
        \<or> (\<exists>tb. loggers state ''tensorboard'' = Some tb
                \<and> tb_loggers tb (loader_name state) = None))
   \<and> (get_tensorboard_logger state = Inl e \<longrightarrow> e = RuntimeError)
   \<and> (loggers state ''tensorboard'' = Some tb \<and> tb_loggers tb (loader_name state) = Some w
        \<longrightarrow> get_tensorboard_logger state = Inr w)
   \<and> (get_tensorboard_logger state = Inl RuntimeError
        \<longrightarrow> save_visualizations make_grid self state visualizations = Inl RuntimeError)
   \<and> (get_tensorboard_logger state = Inr w
        \<and> save_visualizations make_grid self state visualizations = Inl e
        \<longrightarrow> add_images make_grid self (step state) visualizations w = Inl e)
   \<and> (compute_visualizations cat3 self state = Inr visualizations
        \<and> get_tensorboard_logger state = Inl RuntimeError
        \<longrightarrow> visualize cat3 make_grid self state = Inl RuntimeError)
   \<and> (compute_visualizations cat3 self state = Inl e
        \<longrightarrow> visualize cat3 make_grid self state = Inl e)"
proof -
  have a: "(get_tensorboard_logger state = Inl RuntimeError)
     = (loggers state ''tensorboard'' = None
        \<or> (\<exists>tb. loggers state ''tensorboard'' = Some tb
                \<and> tb_loggers tb (loader_name state) = None))"
    by (simp add: get_tensorboard_logger_Inl)
  have b: "e = RuntimeError" if "get_tensorboard_logger state = Inl e"
    using that by (simp add: get_tensorboard_logger_Inl)
  have c: "get_tensorboard_logger state = Inr w"
    if "loggers state ''tensorboard'' = Some tb" "tb_loggers tb (loader_name state) = Some w"
    using that by (simp add: get_tensorboard_logger_Inr)
  have d: "save_visualizations make_grid self state visualizations = Inl RuntimeError"
    if "get_tensorboard_logger state = Inl RuntimeError"
    using that by (simp add: save_visualizations_def)
  have e: "add_images make_grid self (step state) visualizations w = Inl e"
    if "get_tensorboard_logger state = Inr w"
      "save_visualizations make_grid self state visualizations = Inl e"
  proof -
    from that(1) obtain tb where "loggers state ''tensorboard'' = Some tb"
      by (auto simp add: get_tensorboard_logger_Inr)
    with that show ?thesis
      by (simp add: save_visualizations_def split: sum.splits)
  qed
  have f: "visualize cat3 make_grid self state = Inl RuntimeError"
    if "compute_visualizations cat3 self state = Inr visualizations"
      "get_tensorboard_logger state = Inl RuntimeError"
    using that d by (simp add: visualize_def)
  have g: "visualize cat3 make_grid self state = Inl e"
    if "compute_visualizations cat3 self state = Inl e"
    using that by (simp add: visualize_def)
  from a b c d e f g show ?thesis by blast
qed

text \<open>
  Without a TensorBoard logger, \<^verbatim>\<open>visualize\<close> does not raise \<^verbatim>\<open>RuntimeError\<close> when an
  image key is missing from the input: \<^verbatim>\<open>compute_visualizations\<close> runs before the
  lookup and raises \<^verbatim>\<open>KeyError\<close>.
\<close>

theorem visualize_missing_key_counterexample:
  "get_tensorboard_logger empty_state = Inl RuntimeError
   \<and> loggers empty_state ''tensorboard'' = None
   \<and> visualize cat_single plain_grid (image_callback HalfPlusHalf) empty_state = Inl KeyError"
  by (simp add: visualize_def compute_visualizations_def get_tensorboard_logger_def
      image_callback_def empty_state_def)

text \<open>
  In autoencoders the first \<^verbatim>\<open>TensorboardLogger\<close> is indexed without a test: a loader
  it does not know raises \<^verbatim>\<open>KeyError\<close>.
\<close>

lemma autoencoders_logger_lookup_key_error:
  "get_tensorboard_logger_autoencoders [TensorboardLogger \<lparr>tb_loggers = Map.empty\<rparr>] ''train''
   = Inl KeyError"
  by simp

theorem tensorboard_logger_lookup_witness:
  "loggers (logged_state []) ''tensorboard'' = Some \<lparr>tb_loggers = [''train'' \<mapsto> []]\<rparr>
   \<and> get_tensorboard_logger (logged_state []) = Inr []
   \<and> loggers no_loader_state ''tensorboard'' = Some \<lparr>tb_loggers = [''valid'' \<mapsto> []]\<rparr>
   \<and> loader_name no_loader_state = ''train''
   \<and> get_tensorboard_logger no_loader_state = Inl RuntimeError
   \<and> save_visualizations plain_grid (image_callback HalfPlusHalf) no_loader_state
        [(''image'', half_image)] = Inl RuntimeError
   \<and> compute_visualizations cat_single (image_callback HalfPlusHalf) no_loader_state
       = Inr [(''image'', half_image)]
   \<and> visualize cat_single plain_grid (image_callback HalfPlusHalf) no_loader_state
       = Inl RuntimeError
   \<and> compute_visualizations cat_single (image_callback HalfPlusHalf) empty_state = Inl KeyError
   \<and> visualize cat_single plain_grid (image_callback HalfPlusHalf) empty_state = Inl KeyError"
proof -
  note t = tensorboard_logger_lookup
  have l1: "loggers (logged_state []) ''tensorboard'' = Some \<lparr>tb_loggers = [''train'' \<mapsto> []]\<rparr>
        \<and> tb_loggers \<lparr>tb_loggers = [''train'' \<mapsto> []]\<rparr> (loader_name (logged_state [])) = Some []"
    by (simp add: logged_state_def empty_state_def)
  from t [THEN conjunct2, THEN conjunct2, THEN conjunct1, THEN mp, OF l1]
  have a: "get_tensorboard_logger (logged_state []) = Inr []" .
  have l2: "loggers no_loader_state ''tensorboard'' = Some \<lparr>tb_loggers = [''valid'' \<mapsto> []]\<rparr>"
    "loader_name no_loader_state = ''train''"
    by (simp_all add: no_loader_state_def empty_state_def)
  have b: "get_tensorboard_logger no_loader_state = Inl RuntimeError"
    by (rule t [THEN conjunct1, THEN iffD2]) (simp add: l2)
  note t3 = t [THEN conjunct2, THEN conjunct2, THEN conjunct2]
  from t3 [THEN conjunct1, THEN mp, OF b]
  have c: "save_visualizations plain_grid (image_callback HalfPlusHalf) no_loader_state
        [(''image'', half_image)] = Inl RuntimeError" .
  have d: "compute_visualizations cat_single (image_callback HalfPlusHalf) no_loader_state
       = Inr [(''image'', half_image)]"
    by (simp add: compute_visualizations_def image_callback_def no_loader_state_def
        empty_state_def cat_single_def one_image_def half_image_def)
  from t3 [THEN conjunct2, THEN conjunct2, THEN conjunct1, THEN mp, OF conjI [OF d b]]
  have e: "visualize cat_single plain_grid (image_callback HalfPlusHalf) no_loader_state
       = Inl RuntimeError" .
  have f: "compute_visualizations cat_single (image_callback HalfPlusHalf) empty_state
           = Inl KeyError"
    by (simp add: compute_visualizations_def image_callback_def empty_state_def)
  from t3 [THEN conjunct2, THEN conjunct2, THEN conjunct2, THEN mp, OF f]
  have g: "visualize cat_single plain_grid (image_callback HalfPlusHalf) empty_state
           = Inl KeyError" .
  from l1 a l2 b c d e f g show ?thesis by simp
qed

section \<open>Visualization frequency\<close>

text \<open>
  C8. For a positive \<^verbatim>\<open>batch_frequency\<close>, \<^verbatim>\<open>on_batch_end\<close> increments the batch counter
  and visualizes exactly when the incremented counter is not a multiple of
  \<^verbatim>\<open>batch_frequency\<close>. Over a run of batches the counter grows by the number of batches
  and the writer gains the images of one visualization for every batch whose counter is
  not such a multiple. Among any 25 consecutive counters 24 are not multiples of 25, so
  with \<^verbatim>\<open>batch_frequency = 25\<close> a run of 25 batches visualizes 24 times.
\<close>

theorem on_batch_end_visualizes_off_multiples:
  assumes "0 < batch_frequency self"
  shows "VisualizationCallback_on_batch_end cat3 make_grid self state
         = (if (loader_batch_count self + 1) mod batch_frequency self \<noteq> 0
            then visualize cat3 make_grid
                   (self\<lparr>loader_batch_count := loader_batch_count self + 1\<rparr>) state
            else Inr (self\<lparr>loader_batch_count := loader_batch_count self + 1\<rparr>, state))
       \<and> (run_batches cat3 make_grid self state bs = Inr (self', state') \<longrightarrow>
            loader_batch_count self' = loader_batch_count self + int (length bs)
          \<and> images_logged state'
              = images_logged state
                + images_per_visualization self
                  * length (filter (\<lambda>k. (loader_batch_count self + int k)
                                          mod batch_frequency self \<noteq> 0)
                              [1..<Suc (length bs)]))
       \<and> (batch_frequency self = 25 \<and> length bs = 25
          \<and> run_batches cat3 make_grid self state bs = Inr (self', state') \<longrightarrow>
            images_logged state' = images_logged state + images_per_visualization self * 24)
       \<and> length (filter (\<lambda>k. (c + int k) mod 25 \<noteq> 0) [1..<Suc 25]) = 24"
proof -
  from assms have one: "VisualizationCallback_on_batch_end cat3 make_grid self state
         = (if (loader_batch_count self + 1) mod batch_frequency self \<noteq> 0
            then visualize cat3 make_grid
                   (self\<lparr>loader_batch_count := loader_batch_count self + 1\<rparr>) state
            else Inr (self\<lparr>loader_batch_count := loader_batch_count self + 1\<rparr>, state))"
    by (intro on_batch_end_unfold) simp
  have run: "loader_batch_count self' = loader_batch_count self + int (length bs)
          \<and> images_logged state'
              = images_logged state
                + images_per_visualization self
                  * length (filter (\<lambda>k. (loader_batch_count self + int k)
                                          mod batch_frequency self \<noteq> 0)
                              [1..<Suc (length bs)])"
    if "run_batches cat3 make_grid self state bs = Inr (self', state')"
    using run_batches_result [OF that] by simp
  have period: "length (filter (\<lambda>k. (c + int k) mod 25 \<noteq> 0) [1..<Suc 25]) = 24" for c :: int
    using visualizing_count_period [of 25 c] by simp
  have many: "images_logged state' = images_logged state + images_per_visualization self * 24"
    if "batch_frequency self = 25" "length bs = 25"
      "run_batches cat3 make_grid self state bs = Inr (self', state')"
    using run [OF that(3)] period [of "loader_batch_count self"] that(1,2) by simp
  from one run period many show ?thesis by blast
qed

theorem on_batch_end_visualizes_off_multiples_witness:
  "0 < batch_frequency (image_callback HalfPlusHalf)
   \<and> VisualizationCallback_on_batch_end cat_single plain_grid (image_callback HalfPlusHalf)
        (logged_state [])
       = Inr (image_callback HalfPlusHalf\<lparr>loader_batch_count := 1,
                loader_visualized_in_current_epoch := True\<rparr>,
              logged_state [(''image'', half_image, 0)])
   \<and> VisualizationCallback_on_batch_end cat_single plain_grid
        (image_callback HalfPlusHalf\<lparr>loader_batch_count := 24\<rparr>) (logged_state [])
       = Inr (image_callback HalfPlusHalf\<lparr>loader_batch_count := 25\<rparr>, logged_state [])
   \<and> (\<exists>self' state'.
         run_batches cat_single plain_grid (image_callback HalfPlusHalf) (logged_state [])
           (replicate 25 image_batch) = Inr (self', state')
       \<and> loader_batch_count self' = 25
       \<and> images_logged state' = 24)"
proof -
  have bf: "0 < batch_frequency (image_callback HalfPlusHalf)"
    by (simp add: image_callback_def)
  have bf24: "0 < batch_frequency (image_callback HalfPlusHalf\<lparr>loader_batch_count := 24\<rparr>)"
    by (simp add: image_callback_def)
  note t = on_batch_end_visualizes_off_multiples
  have a: "VisualizationCallback_on_batch_end cat_single plain_grid (image_callback HalfPlusHalf)
        (logged_state [])
       = Inr (image_callback HalfPlusHalf\<lparr>loader_batch_count := 1,
                loader_visualized_in_current_epoch := True\<rparr>,
              logged_state [(''image'', half_image, 0)])"
    using t [OF bf, THEN conjunct1, of cat_single plain_grid "logged_state []"]
      visualize_image [where c = 1 and f = False and w = "[]"]
    by (simp add: image_callback_def)
  have b: "VisualizationCallback_on_batch_end cat_single plain_grid
        (image_callback HalfPlusHalf\<lparr>loader_batch_count := 24\<rparr>) (logged_state [])
       = Inr (image_callback HalfPlusHalf\<lparr>loader_batch_count := 25\<rparr>, logged_state [])"
    using t [OF bf24, THEN conjunct1, of cat_single plain_grid "logged_state []"]
    by (simp add: image_callback_def)
  from run_image_batches [where c = 0 and f = False and w = "[]" and n = 25] obtain self' state' where
    r: "run_batches cat_single plain_grid (image_callback HalfPlusHalf) (logged_state [])
           (replicate 25 image_batch) = Inr (self', state')"
    unfolding image_callback_fresh by blast
  have h: "batch_frequency (image_callback HalfPlusHalf) = 25
          \<and> length (replicate 25 image_batch) = 25
          \<and> run_batches cat_single plain_grid (image_callback HalfPlusHalf) (logged_state [])
           (replicate 25 image_batch) = Inr (self', state')"
    using r by (simp add: image_callback_def)
  from t [OF bf, THEN conjunct2, THEN conjunct1, THEN mp, OF r]
  have c: "loader_batch_count self' = 25"
    by (simp add: image_callback_def)
  from t [OF bf, THEN conjunct2, THEN conjunct2, THEN conjunct1, THEN mp, OF h]
  have d: "images_logged state' = 24"
    by (simp add: images_logged_state images_per_visualization_def image_callback_def)
  from bf a b r c d show ?thesis by blast
qed

section \<open>Same-class features\<close>

lemma slice_stop_le: "slice_stop n k \<le> n"
  by (auto simp add: slice_stop_def)

lemma cat0_slices:
  assumes "shape t = n # rest"
  shows "\<exists>a b. slice_to k t = Inr a \<and> slice_from k t = Inr b \<and> cat0 a b = Inr t"
  using assms slice_stop_le [of n k]
  by (simp add: slice_to_def slice_from_def cat0_def Let_def)

lemma torch_cat_slices:
  assumes "tensor_shape data = n # rest"
  shows "\<exists>a b. tensor_slice_to k data = Inr a \<and> tensor_slice_from k data = Inr b
            \<and> torch_cat a b = Inr data"
proof (cases data)
  case (FloatTensor t)
  with assms have "shape t = n # rest" by simp
  from cat0_slices [OF this, of k] FloatTensor show ?thesis by auto
next
  case (LongTensor t)
  with assms have "shape t = n # rest" by simp
  from cat0_slices [OF this, of k] LongTensor show ?thesis by auto
qed

lemma same_class_stored:
  assumes "SameClassFeaturesRepeatCallback_on_batch_start self state = Inr state'"
  shows "\<exists>data. input state (data_key self) = Some data
           \<and> state' = state\<lparr>input := (input state)(same_class_data_key self \<mapsto> data)\<rparr>"
proof -
  from assms obtain batch_size where bs: "get_batch_size self state = Inr batch_size"
    by (auto simp add: SameClassFeaturesRepeatCallback_on_batch_start_def split: sum.splits)
  then obtain data where data: "input state (data_key self) = Some data"
    and size: "size0 data = Inr batch_size"
    by (auto simp add: get_batch_size_def split: option.splits)
  from size obtain rest where "tensor_shape data = batch_size # rest"
    by (auto simp add: size0_def split: list.splits)
  from torch_cat_slices [OF this, of "int (batch_size div 2)"] obtain a b where
    "tensor_slice_to (int (batch_size div 2)) data = Inr a"
    "tensor_slice_from (int (batch_size div 2)) data = Inr b" "torch_cat a b = Inr data"
    by blast
  with assms bs data
  have "state' = state\<lparr>input := (input state)(same_class_data_key self \<mapsto> data)\<rparr>"
    by (auto simp add: SameClassFeaturesRepeatCallback_on_batch_start_def
        split: sum.splits if_splits)
  with data show ?thesis by blast
qed

lemma same_class_returns:
  assumes "input state (data_key self) = Some data"
    and "tensor_shape data = batch_size # rest"
    and "even batch_size"
    and "\<forall>tk. targets_key self = Some tk \<longrightarrow>
           (\<exists>target first_half second_half.
              input state tk = Some target
            \<and> size0 target = Inr batch_size
            \<and> tensor_slice_to (int (batch_size div 2)) target = Inr first_half
            \<and> tensor_slice_from (int (batch_size div 2)) target = Inr second_half
            \<and> torch_equal first_half second_half)"
  shows "SameClassFeaturesRepeatCallback_on_batch_start self state
         = (if input state (same_class_data_key self) = None
            then Inr (state\<lparr>input := (input state)(same_class_data_key self \<mapsto> data)\<rparr>)
            else Inl AssertionError)"
proof -
  have bs: "get_batch_size self state = Inr batch_size"
    using assms(1,2) by (simp add: get_batch_size_def size0_def)
  have chk: "targets_sanity_check self state batch_size = Inr ()"
  proof (cases "targets_key self")
    case None
    then show ?thesis by (simp add: targets_sanity_check_def)
  next
    case (Some tk)
    with assms(4) obtain target first_half second_half where
      "input state tk = Some target" "size0 target = Inr batch_size"
      "tensor_slice_to (int (batch_size div 2)) target = Inr first_half"
      "tensor_slice_from (int (batch_size div 2)) target = Inr second_half"
      "torch_equal first_half second_half"
      by blast
    with Some assms(3) show ?thesis
      by (simp add: targets_sanity_check_def)
  qed
  obtain a b where ab: "tensor_slice_to (int (batch_size div 2)) data = Inr a"
    "tensor_slice_from (int (batch_size div 2)) data = Inr b" "torch_cat a b = Inr data"
    using torch_cat_slices [OF assms(2)] by blast
  show ?thesis
    using bs chk assms(1) ab
    by (simp add: SameClassFeaturesRepeatCallback_on_batch_start_def)
qed

text \<open>
  C9. Whenever \<^verbatim>\<open>on_batch_start\<close> returns, what it has stored under
  \<^verbatim>\<open>same_class_data_key\<close> (the concatenation of the first half and the second half of
  the data along dimension 0) is the data tensor itself, and nothing else is changed. It
  does return for every state whose input holds a data tensor with an even first
  dimension \<open>batch_size\<close> under the data key and, when a targets key is set, targets
  of that batch size whose second half equals the first half, unless
  \<^verbatim>\<open>same_class_data_key\<close> is already in the input, where it stops at its assertion.
\<close>

theorem same_class_data_is_data:
  "(SameClassFeaturesRepeatCallback_on_batch_start self state = Inr state' \<longrightarrow>
      (\<exists>data. input state (data_key self) = Some data
         \<and> input state' (same_class_data_key self) = Some data
         \<and> state' = state\<lparr>input := (input state)(same_class_data_key self \<mapsto> data)\<rparr>))
   \<and> (input state (data_key self) = Some data
      \<and> tensor_shape data = batch_size # rest
      \<and> even batch_size
      \<and> (\<forall>tk. targets_key self = Some tk \<longrightarrow>
           (\<exists>target first_half second_half.
              input state tk = Some target
            \<and> size0 target = Inr batch_size
            \<and> tensor_slice_to (int (batch_size div 2)) target = Inr first_half
            \<and> tensor_slice_from (int (batch_size div 2)) target = Inr second_half
            \<and> torch_equal first_half second_half))
      \<longrightarrow> SameClassFeaturesRepeatCallback_on_batch_start self state
          = (if input state (same_class_data_key self) = None
             then Inr (state\<lparr>input := (input state)(same_class_data_key self \<mapsto> data)\<rparr>)
             else Inl AssertionError))"
proof (intro conjI impI)
  assume "SameClassFeaturesRepeatCallback_on_batch_start self state = Inr state'"
  from same_class_stored [OF this] obtain data where
    "input state (data_key self) = Some data"
    "state' = state\<lparr>input := (input state)(same_class_data_key self \<mapsto> data)\<rparr>"
    by blast
  then show "\<exists>data. input state (data_key self) = Some data
         \<and> input state' (same_class_data_key self) = Some data
         \<and> state' = state\<lparr>input := (input state)(same_class_data_key self \<mapsto> data)\<rparr>"
    by (intro exI [of _ data]) simp
next
  assume h: "input state (data_key self) = Some data
      \<and> tensor_shape data = batch_size # rest
      \<and> even batch_size
      \<and> (\<forall>tk. targets_key self = Some tk \<longrightarrow>
           (\<exists>target first_half second_half.
              input state tk = Some target
            \<and> size0 target = Inr batch_size
            \<and> tensor_slice_to (int (batch_size div 2)) target = Inr first_half
            \<and> tensor_slice_from (int (batch_size div 2)) target = Inr second_half
            \<and> torch_equal first_half second_half))"
  show "SameClassFeaturesRepeatCallback_on_batch_start self state
          = (if input state (same_class_data_key self) = None
             then Inr (state\<lparr>input := (input state)(same_class_data_key self \<mapsto> data)\<rparr>)
             else Inl AssertionError)"
    by (rule same_class_returns [OF h [THEN conjunct1] h [THEN conjunct2, THEN conjunct1]
          h [THEN conjunct2, THEN conjunct2, THEN conjunct1]
          h [THEN conjunct2, THEN conjunct2, THEN conjunct2]])
qed

theorem same_class_data_is_data_witness:
  "input same_class_state (data_key same_class_callback) = Some pair_batch
   \<and> tensor_shape pair_batch = [2, 2]
   \<and> even (2::nat)
   \<and> targets_key same_class_callback = Some ''class_targets''
   \<and> SameClassFeaturesRepeatCallback_on_batch_start same_class_callback same_class_state
       = Inr (same_class_state\<lparr>input :=
           (input same_class_state)(''same_class_data'' \<mapsto> pair_batch)\<rparr>)
   \<and> input (same_class_state\<lparr>input :=
           (input same_class_state)(''same_class_data'' \<mapsto> pair_batch)\<rparr>)
         (same_class_data_key same_class_callback) = Some pair_batch"
proof -
  have h1: "input same_class_state (data_key same_class_callback) = Some pair_batch"
    by (simp add: same_class_state_def same_class_callback_def)
  have h2: "tensor_shape pair_batch = 2 # [2]"
    by (simp add: pair_batch_def)
  have h3: "even (2::nat)" by simp
  have h4: "\<forall>tk. targets_key same_class_callback = Some tk \<longrightarrow>
           (\<exists>target first_half second_half.
              input same_class_state tk = Some target
            \<and> size0 target = Inr 2
            \<and> tensor_slice_to (int (2 div 2)) target = Inr first_half
            \<and> tensor_slice_from (int (2 div 2)) target = Inr second_half
            \<and> torch_equal first_half second_half)"
    by (simp add: same_class_state_def same_class_callback_def pair_targets_def size0_def
        slice_to_def slice_from_def slice_stop_def)
  have h5: "input same_class_state (same_class_data_key same_class_callback) = None"
    by (simp add: same_class_state_def same_class_callback_def)
  have h6: "same_class_data_key same_class_callback = ''same_class_data''"
    "targets_key same_class_callback = Some ''class_targets''"
    by (simp_all add: same_class_callback_def)
  note t = same_class_data_is_data [of same_class_callback same_class_state]
  from t [THEN conjunct2, THEN mp, OF conjI [OF h1 conjI [OF h2 conjI [OF h3 h4]]]] h5 h6
  have r: "SameClassFeaturesRepeatCallback_on_batch_start same_class_callback same_class_state
       = Inr (same_class_state\<lparr>input :=
           (input same_class_state)(''same_class_data'' \<mapsto> pair_batch)\<rparr>)"
    by simp
  from t [THEN conjunct1, THEN mp, OF r] h1 h6
  have s: "input (same_class_state\<lparr>input :=
           (input same_class_state)(''same_class_data'' \<mapsto> pair_batch)\<rparr>)
         (same_class_data_key same_class_callback) = Some pair_batch"
    by auto
  from h1 h2 h3 h6 r s show ?thesis by simp
qed

section \<open>One visualization per loader pass\<close>

text \<open>
  C10. \<^verbatim>\<open>on_loader_start\<close> resets the batch counter to 0 and the flag to false; a call
  of \<^verbatim>\<open>visualize\<close> that returns has set the flag; after \<^verbatim>\<open>on_loader_end\<close> has
  returned the flag is set, \<^verbatim>\<open>on_loader_end\<close> visualizing exactly when the flag was
  not set. Over a loader pass (the callback having at least one image key) the writer
  gains at least one image; after the batches the flag is set exactly when a batch has
  added images, and \<^verbatim>\<open>on_loader_end\<close> adds the images of one visualization when no
  batch has and leaves the callback and the state as they are otherwise.
\<close>

theorem visualization_once_per_loader:
  "loader_batch_count (VisualizationCallback_on_loader_start self state) = 0
   \<and> \<not> loader_visualized_in_current_epoch (VisualizationCallback_on_loader_start self state)
   \<and> (visualize cat3 make_grid self state = Inr (self', state')
        \<longrightarrow> loader_visualized_in_current_epoch self')
   \<and> (VisualizationCallback_on_loader_end cat3 make_grid self state = Inr (self', state')
        \<longrightarrow> loader_visualized_in_current_epoch self')
   \<and> VisualizationCallback_on_loader_end cat3 make_grid self state
       = (if loader_visualized_in_current_epoch self then Inr (self, state)
          else visualize cat3 make_grid self state)
   \<and> (loader_pass cat3 make_grid self state bs = Inr (self', state')
        \<and> input_keys self @ output_keys self \<noteq> []
        \<longrightarrow> loader_visualized_in_current_epoch self'
          \<and> images_logged state < images_logged state'
          \<and> (\<exists>self1 state1.
                run_batches cat3 make_grid (VisualizationCallback_on_loader_start self state)
                  state bs = Inr (self1, state1)
              \<and> VisualizationCallback_on_loader_end cat3 make_grid self1 state1
                  = Inr (self', state')
              \<and> loader_visualized_in_current_epoch self1
                  = (images_logged state < images_logged state1)
              \<and> (if images_logged state1 = images_logged state
                  then visualize cat3 make_grid self1 state1 = Inr (self', state')
                     \<and> images_logged state'
                         = images_logged state1 + images_per_visualization self
                  else self' = self1 \<and> state' = state1)))"
proof -
  have a: "loader_batch_count (VisualizationCallback_on_loader_start self state) = 0"
    "\<not> loader_visualized_in_current_epoch (VisualizationCallback_on_loader_start self state)"
    by (simp_all add: VisualizationCallback_on_loader_start_def VisualizationCallback_reset_def)
  have p: "loader_visualized_in_current_epoch self'
          \<and> images_logged state < images_logged state'
          \<and> (\<exists>self1 state1.
                run_batches cat3 make_grid (VisualizationCallback_on_loader_start self state)
                  state bs = Inr (self1, state1)
              \<and> VisualizationCallback_on_loader_end cat3 make_grid self1 state1
                  = Inr (self', state')
              \<and> loader_visualized_in_current_epoch self1
                  = (images_logged state < images_logged state1)
              \<and> (if images_logged state1 = images_logged state
                  then visualize cat3 make_grid self1 state1 = Inr (self', state')
                     \<and> images_logged state'
                         = images_logged state1 + images_per_visualization self
                  else self' = self1 \<and> state' = state1))"
    if "loader_pass cat3 make_grid self state bs = Inr (self', state')"
      "input_keys self @ output_keys self \<noteq> []"
  proof -
    from loader_pass_result [OF that] obtain self1 state1 where
      r: "run_batches cat3 make_grid (VisualizationCallback_on_loader_start self state) state bs
             = Inr (self1, state1)"
      "VisualizationCallback_on_loader_end cat3 make_grid self1 state1 = Inr (self', state')"
      "loader_visualized_in_current_epoch self1
             = (images_logged state < images_logged state1)"
      "if images_logged state1 = images_logged state
             then visualize cat3 make_grid self1 state1 = Inr (self', state')
                \<and> images_logged state' = images_logged state1 + images_per_visualization self
             else self' = self1 \<and> state' = state1"
      "images_logged state < images_logged state'"
      by blast
    from on_loader_end_flag [OF r(2)] r show ?thesis by blast
  qed
  from a visualize_flag on_loader_end_flag on_loader_end_unfold [of cat3 make_grid self state] p
  show ?thesis by blast
qed

theorem visualization_once_per_loader_witness:
  "input_keys (image_callback HalfPlusHalf) @ output_keys (image_callback HalfPlusHalf) \<noteq> []
   \<and> loader_pass cat_single plain_grid (image_callback HalfPlusHalf) (logged_state []) []
       = Inr (image_callback HalfPlusHalf\<lparr>loader_batch_count := 0,
                loader_visualized_in_current_epoch := True\<rparr>,
              logged_state [(''image'', half_image, 0)])
   \<and> loader_pass cat_single plain_grid (image_callback HalfPlusHalf) (logged_state [])
         [image_batch]
       = Inr (image_callback HalfPlusHalf\<lparr>loader_batch_count := 1,
                loader_visualized_in_current_epoch := True\<rparr>,
              logged_state [(''image'', half_image, 0)])
   \<and> loader_visualized_in_current_epoch
        (image_callback HalfPlusHalf\<lparr>loader_batch_count := 1,
           loader_visualized_in_current_epoch := True\<rparr>)
   \<and> images_logged (logged_state []) < images_logged (logged_state [(''image'', half_image, 0)])"
proof -
  have k: "input_keys (image_callback HalfPlusHalf) @ output_keys (image_callback HalfPlusHalf)
           \<noteq> []"
    by (simp add: image_callback_def)
  note t = visualization_once_per_loader [THEN conjunct2, THEN conjunct2, THEN conjunct2,
      THEN conjunct2, THEN conjunct2, THEN mp, OF conjI [OF loader_pass_one_batch k]]
  from t [THEN conjunct1] t [THEN conjunct2, THEN conjunct1] k loader_pass_no_batches
    loader_pass_one_batch
  show ?thesis by simp
qed

end
